theory Spec2Isabelle
  imports Main
begin

section \<open>The request gateway of api/generate.js\<close>

text \<open>
  The repository is one serverless function, \<^verbatim>\<open>handler(req, res)\<close>. It sets three
  CORS headers, answers OPTIONS, rejects every method but POST, reads two
  environment variables, builds a Vertex AI client, and dispatches on the
  \<^verbatim>\<open>step\<close> field of the request body to one of three calls of the client.

  The embedding follows the handler statement by statement. What the handler
  does not contain is taken as a parameter: the JavaScript runtime
  (\<^verbatim>\<open>JSON.parse\<close> and the text of the engine's own TypeErrors) and the
  Vertex AI library (its constructor, \<^verbatim>\<open>getGenerativeModel\<close> and
  \<^verbatim>\<open>generateContent\<close>).
\<close>

subsection \<open>JavaScript values\<close>

text \<open>
  The values the handler touches are JSON-like: the request body, the parsed
  service-account key, the request literals it builds and the provider's
  response. An object is an association list; a lookup takes the first binding
  of a key. Numbers are only ever tested for truthiness, so they are integers.
\<close>

datatype jsval =
    JUndefined
  | JNull
  | JBool bool
  | JNum int
  | JStr string
  | JArr "jsval list"
  | JObj "(string \<times> jsval) list"

text \<open>
  A thrown value is an Error object: the name of its class and its
  \<^verbatim>\<open>message\<close>, the only property the handler reads of it (line 130).
\<close>

datatype js_error = Thrown (err_name: string) (message: string)

text \<open>
  The faults the engine itself raises in this handler: a property read (or a
  destructuring) of \<^verbatim>\<open>undefined\<close> or \<^verbatim>\<open>null\<close>, and a call of
  something that is not a function. The message text is the engine's.
\<close>

datatype type_fault =
    NullishRead jsval string
  | NotCallable string

record runtime =
  JSON_parse :: "string \<Rightarrow> js_error + jsval"
  type_error_text :: "type_fault \<Rightarrow> string"

definition type_error :: "runtime \<Rightarrow> type_fault \<Rightarrow> js_error" where
  "type_error rt f = Thrown ''TypeError'' (type_error_text rt f)"

definition nullish :: "jsval \<Rightarrow> bool" where
  "nullish v = (v = JUndefined \<or> v = JNull)"

text \<open>JavaScript's ToBoolean, as \<^verbatim>\<open>!x\<close> and \<^verbatim>\<open>find\<close> apply it.\<close>

fun truthy :: "jsval \<Rightarrow> bool" where
  "truthy JUndefined = False"
| "truthy JNull = False"
| "truthy (JBool b) = b"
| "truthy (JNum n) = (n \<noteq> 0)"
| "truthy (JStr s) = (s \<noteq> [])"
| "truthy (JArr xs) = True"
| "truthy (JObj kvs) = True"

text \<open>
  \<^verbatim>\<open>v.k\<close> for a value that is not nullish and one of the property names the
  handler reads (private_key, client_email, step, payload, systemPrompt,
  userQuery, prompt, base64Data, response, candidates, content, parts, text,
  inlineData, data). None of them is a property of a boolean, a number, a
  string or an array, so only an object can hold one.
\<close>

fun field :: "jsval \<Rightarrow> string \<Rightarrow> jsval" where
  "field (JObj kvs) k = (case map_of kvs k of None \<Rightarrow> JUndefined | Some v \<Rightarrow> v)"
| "field v k = JUndefined"

text \<open>\<^verbatim>\<open>v[0]\<close> for a value that is not nullish.\<close>

fun first_elem :: "jsval \<Rightarrow> jsval" where
  "first_elem (JArr []) = JUndefined"
| "first_elem (JArr (x # xs)) = x"
| "first_elem (JStr []) = JUndefined"
| "first_elem (JStr (c # cs)) = JStr [c]"
| "first_elem (JObj kvs) = (case map_of kvs ''0'' of None \<Rightarrow> JUndefined | Some v \<Rightarrow> v)"
| "first_elem v = JUndefined"

text \<open>The reads as the engine performs them: a nullish base throws a TypeError.\<close>

definition get_prop :: "runtime \<Rightarrow> jsval \<Rightarrow> string \<Rightarrow> js_error + jsval" where
  "get_prop rt v k =
     (if nullish v then Inl (type_error rt (NullishRead v k)) else Inr (field v k))"

definition get_first :: "runtime \<Rightarrow> jsval \<Rightarrow> js_error + jsval" where
  "get_first rt v =
     (if nullish v then Inl (type_error rt (NullishRead v ''0'')) else Inr (first_elem v))"

text \<open>Sequencing of steps that may throw: the first throw ends the sequence.\<close>

definition bind_e :: "js_error + 'a \<Rightarrow> ('a \<Rightarrow> js_error + 'b) \<Rightarrow> js_error + 'b" where
  "bind_e m f = (case m of Inl e \<Rightarrow> Inl e | Inr x \<Rightarrow> f x)"

subsection \<open>Environment, request, response\<close>

text \<open>\<^verbatim>\<open>process.env\<close>: a variable is unset (\<open>None\<close>) or holds a string.\<close>

record env =
  GOOGLE_PROJECT_ID :: "string option"
  GOOGLE_SERVICE_ACCOUNT_KEY :: "string option"

text \<open>
  The request as the handler reads it: \<^verbatim>\<open>req.method\<close> and \<^verbatim>\<open>req.body\<close>
  (\<open>JUndefined\<close> when the request carried no body).
\<close>

record request =
  req_method :: string
  body :: jsval

datatype response_body = NoBody | Json jsval

record response =
  status :: nat
  headers :: "(string \<times> string) list"
  payload_sent :: response_body

text \<open>
  The response object \<^verbatim>\<open>res\<close> before it is sent is the list of headers set on
  it. \<^verbatim>\<open>res.setHeader(k, v)\<close> replaces the header of that name or adds it
  after the others.
\<close>

type_synonym res = "(string \<times> string) list"

fun setHeader :: "string \<Rightarrow> string \<Rightarrow> res \<Rightarrow> res" where
  "setHeader k v [] = [(k, v)]"
| "setHeader k v ((k', v') # hs) =
     (if k' = k then (k, v) # hs else (k', v') # setHeader k v hs)"

text \<open>\<^verbatim>\<open>res.status(n).end()\<close> and \<^verbatim>\<open>res.status(n).json(v)\<close>.\<close>

definition respond_end :: "res \<Rightarrow> nat \<Rightarrow> response" where
  "respond_end hs n = \<lparr>status = n, headers = hs, payload_sent = NoBody\<rparr>"

definition respond_json :: "res \<Rightarrow> nat \<Rightarrow> jsval \<Rightarrow> response" where
  "respond_json hs n v = \<lparr>status = n, headers = hs, payload_sent = Json v\<rparr>"

text \<open>The object literal \<^verbatim>\<open>{ error: msg }\<close>.\<close>

definition error_envelope :: "string \<Rightarrow> jsval" where
  "error_envelope msg = JObj [(''error'', JStr msg)]"

subsection \<open>The Vertex AI library\<close>

text \<open>
  The library is not part of the repository. A client is identified by the
  options it was built from, a model by the client's options and its own
  parameters. The constructor and \<^verbatim>\<open>getGenerativeModel\<close> either throw or
  succeed; \<^verbatim>\<open>generateContent\<close> throws (the promise rejects) or yields the
  result object.
\<close>

record sdk =
  new_VertexAI :: "jsval \<Rightarrow> js_error option"
  getGenerativeModel :: "jsval \<Rightarrow> jsval \<Rightarrow> js_error option"
  generateContent :: "jsval \<Rightarrow> jsval \<Rightarrow> jsval \<Rightarrow> js_error + jsval"

text \<open>The calls of the library an invocation made, in order.\<close>

datatype sdk_call =
    Construct jsval
  | GetModel jsval
  | GenerateContent jsval jsval

text \<open>
  A computation inside the handler: the library calls it made, and either the
  value thrown or the value computed.
\<close>

type_synonym 'a comp = "sdk_call list \<times> (js_error + 'a)"

definition pure_c :: "js_error + 'a \<Rightarrow> 'a comp" where
  "pure_c r = ([], r)"

definition bind_c :: "'a comp \<Rightarrow> ('a \<Rightarrow> 'b comp) \<Rightarrow> 'b comp" where
  "bind_c m f =
     (case m of
        (cs, Inl e) \<Rightarrow> (cs, Inl e)
      | (cs, Inr x) \<Rightarrow> (case f x of (cs', r) \<Rightarrow> (cs @ cs', r)))"

definition call_getGenerativeModel :: "sdk \<Rightarrow> jsval \<Rightarrow> jsval \<Rightarrow> unit comp" where
  "call_getGenerativeModel lib init params =
     ([GetModel params],
      case getGenerativeModel lib init params of Some e \<Rightarrow> Inl e | None \<Rightarrow> Inr ())"

definition call_generateContent :: "sdk \<Rightarrow> jsval \<Rightarrow> jsval \<Rightarrow> jsval \<Rightarrow> jsval comp" where
  "call_generateContent lib init params req =
     ([GenerateContent params req], generateContent lib init params req)"

subsection \<open>Credential resolution (lines 28-44)\<close>

text \<open>The two messages of lines 32 and 43.\<close>

definition missing_credentials :: string where
  "missing_credentials = ''Server configuration error. Missing API credentials.''"

definition invalid_key_format :: string where
  "invalid_key_format = ''Server configuration error. Invalid service account key format.''"

text \<open>
  Lines 39-41, the body of the first \<^verbatim>\<open>try\<close>: parse the key, read
  \<^verbatim>\<open>private_key\<close> and \<^verbatim>\<open>client_email\<close> of the result.
\<close>

definition read_key :: "runtime \<Rightarrow> string \<Rightarrow> js_error + (jsval \<times> jsval)" where
  "read_key rt key =
     bind_e (JSON_parse rt key) (\<lambda>keyData.
     bind_e (get_prop rt keyData ''private_key'') (\<lambda>privateKey.
     bind_e (get_prop rt keyData ''client_email'') (\<lambda>clientEmail.
     Inr (privateKey, clientEmail))))"

text \<open>
  Lines 28-44. \<^verbatim>\<open>!x\<close> holds of a variable that is unset and of one that is
  the empty string. The result is the response of an early return, or the
  project identifier, the private key and the client email.
\<close>

definition resolve_credentials ::
  "runtime \<Rightarrow> res \<Rightarrow> env \<Rightarrow> response + (string \<times> jsval \<times> jsval)" where
  "resolve_credentials rt hs ev =
     (case GOOGLE_PROJECT_ID ev of
        None \<Rightarrow> Inl (respond_json hs 500 (error_envelope missing_credentials))
      | Some projectId \<Rightarrow>
     (case GOOGLE_SERVICE_ACCOUNT_KEY ev of
        None \<Rightarrow> Inl (respond_json hs 500 (error_envelope missing_credentials))
      | Some key \<Rightarrow>
          if projectId = [] \<or> key = []
          then Inl (respond_json hs 500 (error_envelope missing_credentials))
          else
            (case read_key rt key of
               Inl e \<Rightarrow> Inl (respond_json hs 500 (error_envelope invalid_key_format))
             | Inr (privateKey, clientEmail) \<Rightarrow> Inr (projectId, privateKey, clientEmail))))"

text \<open>Lines 46-53: the options the client is built from.\<close>

definition vertex_init :: "string \<times> jsval \<times> jsval \<Rightarrow> jsval" where
  "vertex_init c =
     (case c of (projectId, privateKey, clientEmail) \<Rightarrow>
        JObj [(''project'', JStr projectId),
              (''location'', JStr ''us-central1''),
              (''credentials'',
                 JObj [(''private_key'', privateKey), (''client_email'', clientEmail)])])"

subsection \<open>Dispatch (lines 58-131)\<close>

definition text_model_params :: jsval where
  "text_model_params = JObj [(''model'', JStr ''gemini-2.5-flash-preview-09-2025'')]"

definition image_model_params :: jsval where
  "image_model_params = JObj [(''model'', JStr ''imagen-3.0-generate-002'')]"

text \<open>
  Lines 81 and 121: \<^verbatim>\<open>resp.response.candidates[0].content.parts[0].text\<close>.
\<close>

definition first_text :: "runtime \<Rightarrow> jsval \<Rightarrow> js_error + jsval" where
  "first_text rt resp =
     bind_e (get_prop rt resp ''response'') (\<lambda>r.
     bind_e (get_prop rt r ''candidates'') (\<lambda>cs.
     bind_e (get_first rt cs) (\<lambda>c.
     bind_e (get_prop rt c ''content'') (\<lambda>co.
     bind_e (get_prop rt co ''parts'') (\<lambda>ps.
     bind_e (get_first rt ps) (\<lambda>p.
     get_prop rt p ''text''))))))"

text \<open>
  Line 96: \<^verbatim>\<open>parts.find(p => p.inlineData)\<close> on an array: the first element
  whose \<^verbatim>\<open>inlineData\<close> is truthy, \<^verbatim>\<open>undefined\<close> when there is none; the
  callback throws on a nullish element it reaches.
\<close>

fun find_inline :: "runtime \<Rightarrow> jsval list \<Rightarrow> js_error + jsval" where
  "find_inline rt [] = Inr JUndefined"
| "find_inline rt (p # ps) =
     (case get_prop rt p ''inlineData'' of
        Inl e \<Rightarrow> Inl e
      | Inr d \<Rightarrow> if truthy d then Inr p else find_inline rt ps)"

text \<open>
  The method call itself: only an array has a \<^verbatim>\<open>find\<close> to call (a JSON
  value holds no function).
\<close>

fun call_find :: "runtime \<Rightarrow> jsval \<Rightarrow> js_error + jsval" where
  "call_find rt (JArr ps) = find_inline rt ps"
| "call_find rt JUndefined = Inl (type_error rt (NullishRead JUndefined ''find''))"
| "call_find rt JNull = Inl (type_error rt (NullishRead JNull ''find''))"
| "call_find rt v = Inl (type_error rt (NotCallable ''find''))"

text \<open>Line 96 as a whole.\<close>

definition first_image_part :: "runtime \<Rightarrow> jsval \<Rightarrow> js_error + jsval" where
  "first_image_part rt resp =
     bind_e (get_prop rt resp ''response'') (\<lambda>r.
     bind_e (get_prop rt r ''candidates'') (\<lambda>cs.
     bind_e (get_first rt cs) (\<lambda>c.
     bind_e (get_prop rt c ''content'') (\<lambda>co.
     bind_e (get_prop rt co ''parts'') (\<lambda>ps.
     call_find rt ps)))))"

text \<open>The request literals of lines 77-80, 88-93 and 109-119.\<close>

definition text_request :: "jsval \<Rightarrow> jsval \<Rightarrow> jsval" where
  "text_request systemPrompt userQuery =
     JObj [(''contents'',
              JArr [JObj [(''role'', JStr ''user''),
                          (''parts'', JArr [JObj [(''text'', userQuery)]])]]),
           (''systemInstruction'',
              JObj [(''parts'', JArr [JObj [(''text'', systemPrompt)]])])]"

definition image_request :: "jsval \<Rightarrow> jsval" where
  "image_request prompt =
     JObj [(''contents'',
              JArr [JObj [(''role'', JStr ''user''),
                          (''parts'', JArr [JObj [(''text'', prompt)]])]]),
           (''generationConfig'',
              JObj [(''responseModalities'', JArr [JStr ''IMAGE''])])]"

definition describe_request :: "jsval \<Rightarrow> jsval \<Rightarrow> jsval" where
  "describe_request systemPrompt base64Data =
     (let imagePart =
            JObj [(''inlineData'',
                     JObj [(''mimeType'', JStr ''image/png''), (''data'', base64Data)])];
          textPart = JObj [(''text'', systemPrompt)]
      in JObj [(''contents'',
                  JArr [JObj [(''role'', JStr ''user''),
                              (''parts'', JArr [textPart, imagePart])]])])"

text \<open>Lines 75-83.\<close>

definition case_generateText ::
  "runtime \<Rightarrow> sdk \<Rightarrow> res \<Rightarrow> jsval \<Rightarrow> jsval \<Rightarrow> response comp" where
  "case_generateText rt lib hs init payload =
     bind_c (pure_c (get_prop rt payload ''systemPrompt'')) (\<lambda>systemPrompt.
     bind_c (pure_c (get_prop rt payload ''userQuery'')) (\<lambda>userQuery.
     bind_c (call_generateContent lib init text_model_params
               (text_request systemPrompt userQuery)) (\<lambda>resp.
     bind_c (pure_c (first_text rt resp)) (\<lambda>resultText.
     pure_c (Inr (respond_json hs 200 (JObj [(''text'', resultText)])))))))"

text \<open>Lines 86-103.\<close>

definition case_generateImage ::
  "runtime \<Rightarrow> sdk \<Rightarrow> res \<Rightarrow> jsval \<Rightarrow> jsval \<Rightarrow> response comp" where
  "case_generateImage rt lib hs init payload =
     bind_c (pure_c (get_prop rt payload ''prompt'')) (\<lambda>prompt.
     bind_c (call_generateContent lib init image_model_params (image_request prompt)) (\<lambda>resp.
     bind_c (pure_c (first_image_part rt resp)) (\<lambda>imagePart.
     if \<not> truthy imagePart
     then pure_c (Inl (Thrown ''Error'' ''No image data returned from Imagen.''))
     else
       bind_c (pure_c (get_prop rt imagePart ''inlineData'')) (\<lambda>inlineData.
       bind_c (pure_c (get_prop rt inlineData ''data'')) (\<lambda>base64Image.
       pure_c (Inr (respond_json hs 200 (JObj [(''base64Image'', base64Image)]))))))))"

text \<open>Lines 106-123.\<close>

definition case_describeImage ::
  "runtime \<Rightarrow> sdk \<Rightarrow> res \<Rightarrow> jsval \<Rightarrow> jsval \<Rightarrow> response comp" where
  "case_describeImage rt lib hs init payload =
     bind_c (pure_c (get_prop rt payload ''systemPrompt'')) (\<lambda>systemPrompt.
     bind_c (pure_c (get_prop rt payload ''base64Data'')) (\<lambda>base64Data.
     bind_c (call_generateContent lib init text_model_params
               (describe_request systemPrompt base64Data)) (\<lambda>resp.
     bind_c (pure_c (first_text rt resp)) (\<lambda>resultText.
     pure_c (Inr (respond_json hs 200 (JObj [(''text'', resultText)])))))))"

text \<open>
  Lines 59-127, the body of the second \<^verbatim>\<open>try\<close>: both models are selected,
  then the switch compares \<^verbatim>\<open>step\<close> with the three string literals.
\<close>

definition try_body ::
  "runtime \<Rightarrow> sdk \<Rightarrow> res \<Rightarrow> jsval \<Rightarrow> jsval \<Rightarrow> jsval \<Rightarrow> response comp" where
  "try_body rt lib hs init step payload =
     bind_c (call_getGenerativeModel lib init text_model_params) (\<lambda>_.
     bind_c (call_getGenerativeModel lib init image_model_params) (\<lambda>_.
     if step = JStr ''generateText'' then case_generateText rt lib hs init payload
     else if step = JStr ''generateImage'' then case_generateImage rt lib hs init payload
     else if step = JStr ''describeImage'' then case_describeImage rt lib hs init payload
     else pure_c (Inr (respond_json hs 400 (error_envelope ''Invalid step provided'')))))"

subsection \<open>The handler\<close>

text \<open>
  What an invocation ends in: the one response it sent, or a value thrown out
  of the handler (the returned promise rejects and the handler has sent
  nothing).
\<close>

datatype result = Responded response | Unhandled js_error

record outcome =
  result :: result
  sdk_calls :: "sdk_call list"
  console :: "js_error list"

definition finish :: "response \<Rightarrow> outcome" where
  "finish r = \<lparr>result = Responded r, sdk_calls = [], console = []\<rparr>"

text \<open>
  Lines 128-131: the \<^verbatim>\<open>catch\<close> of the second \<^verbatim>\<open>try\<close>, after the error
  is written to the console.
\<close>

definition catch_api_error :: "res \<Rightarrow> js_error \<Rightarrow> response" where
  "catch_api_error hs e = respond_json hs 500 (error_envelope (''API Error: '' @ message e))"

text \<open>Lines 13-15: the three headers, set before anything else.\<close>

definition cors_headers :: res where
  "cors_headers =
     setHeader ''Access-Control-Allow-Headers'' ''Content-Type''
       (setHeader ''Access-Control-Allow-Methods'' ''POST, OPTIONS''
          (setHeader ''Access-Control-Allow-Origin'' ''*'' []))"

text \<open>
  Lines 11-132. The constructor of the client (line 46) and the destructuring
  of \<^verbatim>\<open>req.body\<close> (line 56) stand between the two \<^verbatim>\<open>try\<close> blocks: what
  they throw leaves the handler.
\<close>

definition handler :: "runtime \<Rightarrow> sdk \<Rightarrow> env \<Rightarrow> request \<Rightarrow> outcome" where
  "handler rt lib ev req =
     (let hs = cors_headers in
      if req_method req = ''OPTIONS'' then finish (respond_end hs 200)
      else if req_method req \<noteq> ''POST''
      then finish (respond_json hs 405 (error_envelope ''Method Not Allowed''))
      else
        (case resolve_credentials rt hs ev of
           Inl r \<Rightarrow> finish r
         | Inr creds \<Rightarrow>
             (let init = vertex_init creds in
              case new_VertexAI lib init of
                Some e \<Rightarrow> \<lparr>result = Unhandled e, sdk_calls = [Construct init], console = []\<rparr>
              | None \<Rightarrow>
                  (case get_prop rt (body req) ''step'' of
                     Inl e \<Rightarrow>
                       \<lparr>result = Unhandled e, sdk_calls = [Construct init], console = []\<rparr>
                   | Inr step \<Rightarrow>
                       (case try_body rt lib hs init step (field (body req) ''payload'') of
                          (cs, Inr r) \<Rightarrow>
                            \<lparr>result = Responded r, sdk_calls = Construct init # cs,
                             console = []\<rparr>
                        | (cs, Inl e) \<Rightarrow>
                            \<lparr>result = Responded (catch_api_error hs e),
                             sdk_calls = Construct init # cs, console = [e]\<rparr>)))))"

subsection \<open>Sample inputs\<close>

text \<open>
  Concrete inputs for the examples below. \<open>sample_rt\<close> is \<^verbatim>\<open>JSON.parse\<close> on
  the key strings the examples use (a service-account key, an empty object,
  \<^verbatim>\<open>null\<close>; the empty string and anything else it takes as not JSON),
  with one wording of the engine's TypeErrors.
\<close>

definition sample_key :: string where
  \<open>sample_key = ''{"private_key":"K","client_email":"E"}''\<close>

definition sample_rt :: runtime where
  "sample_rt =
     \<lparr>JSON_parse = (\<lambda>s.
        if s = sample_key
        then Inr (JObj [(''private_key'', JStr ''K''), (''client_email'', JStr ''E'')])
        else if s = ''{}'' then Inr (JObj [])
        else if s = ''null'' then Inr JNull
        else Inl (Thrown ''SyntaxError'' ''Unexpected token'')),
      type_error_text = (\<lambda>f.
        case f of
          NullishRead v k \<Rightarrow> ''Cannot read properties of undefined or null: '' @ k
        | NotCallable k \<Rightarrow> k @ '' is not a function'')\<rparr>"

definition sample_env :: env where
  "sample_env =
     \<lparr>GOOGLE_PROJECT_ID = Some ''my-project'',
      GOOGLE_SERVICE_ACCOUNT_KEY = Some sample_key\<rparr>"

definition sample_init :: jsval where
  "sample_init =
     JObj [(''project'', JStr ''my-project''),
           (''location'', JStr ''us-central1''),
           (''credentials'',
              JObj [(''private_key'', JStr ''K''), (''client_email'', JStr ''E'')])]"

text \<open>A provider result whose first candidate holds the given parts.\<close>

definition result_with_parts :: "jsval list \<Rightarrow> jsval" where
  "result_with_parts ps =
     JObj [(''response'',
              JObj [(''candidates'',
                       JArr [JObj [(''content'', JObj [(''parts'', JArr ps)])]])])]"

text \<open>
  A library that builds every client and model. Its text model answers
  hello; its image model answers a caption followed by an inline image.
\<close>

definition sample_lib :: sdk where
  "sample_lib =
     \<lparr>new_VertexAI = (\<lambda>init. None),
      getGenerativeModel = (\<lambda>init params. None),
      generateContent = (\<lambda>init params rq.
        if params = image_model_params
        then Inr (result_with_parts
                    [JObj [(''text'', JStr ''caption'')],
                     JObj [(''inlineData'',
                              JObj [(''mimeType'', JStr ''image/png''),
                                    (''data'', JStr ''QUJD'')])]])
        else Inr (result_with_parts [JObj [(''text'', JStr ''hello'')]]))\<rparr>"

text \<open>The same library with a provider that fails: every call of it throws.\<close>

definition failing_lib :: sdk where
  "failing_lib =
     \<lparr>new_VertexAI = (\<lambda>init. None),
      getGenerativeModel = (\<lambda>init params. None),
      generateContent = (\<lambda>init params rq. Inl (Thrown ''ClientError'' ''quota exceeded''))\<rparr>"

text \<open>The same library with an image model that answers text only.\<close>

definition text_only_lib :: sdk where
  "text_only_lib =
     \<lparr>new_VertexAI = (\<lambda>init. None),
      getGenerativeModel = (\<lambda>init params. None),
      generateContent = (\<lambda>init params rq.
        Inr (result_with_parts [JObj [(''text'', JStr ''no picture'')]]))\<rparr>"

text \<open>
  The same library with an image model whose generation was blocked: the
  candidate it answers has a content without a list of parts.
\<close>

definition blocked_result :: jsval where
  "blocked_result =
     JObj [(''response'',
              JObj [(''candidates'',
                       JArr [JObj [(''content'', JObj [(''role'', JStr ''model'')]),
                                   (''finishReason'', JStr ''SAFETY'')]])])]"

definition blocked_lib :: sdk where
  "blocked_lib =
     \<lparr>new_VertexAI = (\<lambda>init. None),
      getGenerativeModel = (\<lambda>init params. None),
      generateContent = (\<lambda>init params rq. Inr blocked_result)\<rparr>"

text \<open>
  The same library with a provider that refuses the call and names the
  project of the client in its error message.
\<close>

definition leaky_lib :: sdk where
  "leaky_lib =
     \<lparr>new_VertexAI = (\<lambda>init. None),
      getGenerativeModel = (\<lambda>init params. None),
      generateContent = (\<lambda>init params rq.
        Inl (Thrown ''ClientError''
               (''Permission denied on resource project '' @
                (case field init ''project'' of JStr p \<Rightarrow> p | _ \<Rightarrow> []))))\<rparr>"

text \<open>A POST request with the given step and payload.\<close>

definition post :: "string \<Rightarrow> jsval \<Rightarrow> request" where
  "post step payload =
     \<lparr>req_method = ''POST'', body = JObj [(''step'', JStr step), (''payload'', payload)]\<rparr>"

section \<open>Properties of the handler\<close>

subsection \<open>Reading values and sequencing\<close>

lemma cors_headers_eq:
  "cors_headers =
     [(''Access-Control-Allow-Origin'', ''*''),
      (''Access-Control-Allow-Methods'', ''POST, OPTIONS''),
      (''Access-Control-Allow-Headers'', ''Content-Type'')]"
  by (simp add: cors_headers_def)

lemma get_prop_ok: "\<not> nullish v \<Longrightarrow> get_prop rt v k = Inr (field v k)"
  by (simp add: get_prop_def)

lemma get_prop_nullish:
  "nullish v \<Longrightarrow> get_prop rt v k = Inl (type_error rt (NullishRead v k))"
  by (simp add: get_prop_def)

lemma get_first_ok: "\<not> nullish v \<Longrightarrow> get_first rt v = Inr (first_elem v)"
  by (simp add: get_first_def)

lemma bind_e_Inr: "bind_e (Inr x) f = f x"
  by (simp add: bind_e_def)

lemma bind_e_Inl: "bind_e (Inl e) f = Inl e"
  by (simp add: bind_e_def)

lemma bind_c_pure_Inr: "bind_c (pure_c (Inr x)) f = f x"
  by (simp add: bind_c_def pure_c_def split: prod.splits)

lemma bind_c_pure_Inl: "bind_c (pure_c (Inl e)) f = ([], Inl e)"
  by (simp add: bind_c_def pure_c_def)

lemma snd_bind_c_Inr_D:
  "snd (bind_c m f) = Inr r \<Longrightarrow> \<exists>x. snd m = Inr x \<and> snd (f x) = Inr r"
  by (auto simp: bind_c_def split: prod.splits sum.splits)

lemma snd_pure_c: "snd (pure_c r) = r"
  by (simp add: pure_c_def)

subsection \<open>Evaluation on concrete inputs\<close>

lemmas handler_eval =
  handler_def Let_def finish_def respond_end_def respond_json_def error_envelope_def
  cors_headers_def resolve_credentials_def read_key_def bind_e_def get_prop_def
  get_first_def nullish_def vertex_init_def try_body_def call_getGenerativeModel_def
  call_generateContent_def bind_c_def pure_c_def case_generateText_def
  case_generateImage_def case_describeImage_def first_text_def first_image_part_def
  text_request_def image_request_def describe_request_def text_model_params_def
  image_model_params_def catch_api_error_def type_error_def missing_credentials_def
  invalid_key_format_def

lemmas sample_eval =
  sample_key_def sample_rt_def sample_env_def sample_init_def result_with_parts_def
  sample_lib_def failing_lib_def text_only_lib_def post_def

subsection \<open>The path of a POST request through the handler\<close>

lemma resolve_credentials_valid:
  assumes "GOOGLE_PROJECT_ID ev = Some pid" and "pid \<noteq> []"
    and "GOOGLE_SERVICE_ACCOUNT_KEY ev = Some key" and "key \<noteq> []"
    and "JSON_parse rt key = Inr keyData" and "\<not> nullish keyData"
  shows "resolve_credentials rt hs ev =
           Inr (pid, field keyData ''private_key'', field keyData ''client_email'')"
  using assms by (simp add: resolve_credentials_def read_key_def bind_e_def get_prop_ok)

lemma handler_post:
  assumes "req_method req = ''POST''"
    and "resolve_credentials rt cors_headers ev = Inr creds"
    and "new_VertexAI lib (vertex_init creds) = None"
    and "\<not> nullish (body req)"
  shows "handler rt lib ev req =
           (case try_body rt lib cors_headers (vertex_init creds)
                   (field (body req) ''step'') (field (body req) ''payload'') of
              (cs, Inr r) \<Rightarrow>
                \<lparr>result = Responded r, sdk_calls = Construct (vertex_init creds) # cs,
                 console = []\<rparr>
            | (cs, Inl e) \<Rightarrow>
                \<lparr>result = Responded (catch_api_error cors_headers e),
                 sdk_calls = Construct (vertex_init creds) # cs, console = [e]\<rparr>)"
  using assms by (simp add: handler_def Let_def get_prop_ok)

lemma try_body_ready:
  assumes "getGenerativeModel lib init text_model_params = None"
    and "getGenerativeModel lib init image_model_params = None"
  shows "try_body rt lib hs init step payload =
           (case (if step = JStr ''generateText'' then case_generateText rt lib hs init payload
                  else if step = JStr ''generateImage'' then case_generateImage rt lib hs init payload
                  else if step = JStr ''describeImage'' then case_describeImage rt lib hs init payload
                  else ([], Inr (respond_json hs 400 (error_envelope ''Invalid step provided'')))) of
              (cs, r) \<Rightarrow> (GetModel text_model_params # GetModel image_model_params # cs, r))"
  using assms
  by (simp add: try_body_def call_getGenerativeModel_def bind_c_def pure_c_def split: prod.splits sum.splits)

lemma first_text_shape:
  assumes "\<not> nullish resp" and "\<not> nullish (field resp ''response'')"
    and "field (field resp ''response'') ''candidates'' = JArr (c # cs)"
    and "\<not> nullish c" and "\<not> nullish (field c ''content'')"
    and "field (field c ''content'') ''parts'' = JArr (p # ps)"
    and "\<not> nullish p"
  shows "first_text rt resp = Inr (field p ''text'')"
  using assms by (simp add: first_text_def get_prop_ok get_first_ok bind_e_Inr nullish_def)

lemma case_generateText_run:
  assumes "\<not> nullish p"
  shows "case_generateText rt lib hs init p =
           ([GenerateContent text_model_params
               (text_request (field p ''systemPrompt'') (field p ''userQuery''))],
            bind_e (generateContent lib init text_model_params
                      (text_request (field p ''systemPrompt'') (field p ''userQuery'')))
              (\<lambda>resp. bind_e (first_text rt resp)
                 (\<lambda>t. Inr (respond_json hs 200 (JObj [(''text'', t)])))))"
  using assms
  by (simp add: case_generateText_def get_prop_ok bind_c_pure_Inr call_generateContent_def
      bind_c_def pure_c_def bind_e_def split: sum.splits)

lemma case_describeImage_run:
  assumes "\<not> nullish p"
  shows "case_describeImage rt lib hs init p =
           ([GenerateContent text_model_params
               (describe_request (field p ''systemPrompt'') (field p ''base64Data''))],
            bind_e (generateContent lib init text_model_params
                      (describe_request (field p ''systemPrompt'') (field p ''base64Data'')))
              (\<lambda>resp. bind_e (first_text rt resp)
                 (\<lambda>t. Inr (respond_json hs 200 (JObj [(''text'', t)])))))"
  using assms
  by (simp add: case_describeImage_def get_prop_ok bind_c_pure_Inr call_generateContent_def
      bind_c_def pure_c_def bind_e_def split: sum.splits)

lemma case_generateImage_run:
  assumes "\<not> nullish p"
  shows "case_generateImage rt lib hs init p =
           ([GenerateContent image_model_params (image_request (field p ''prompt''))],
            bind_e (generateContent lib init image_model_params
                      (image_request (field p ''prompt'')))
              (\<lambda>resp. bind_e (first_image_part rt resp)
                 (\<lambda>imagePart.
                    if \<not> truthy imagePart
                    then Inl (Thrown ''Error'' ''No image data returned from Imagen.'')
                    else bind_e (get_prop rt imagePart ''inlineData'')
                      (\<lambda>inlineData. bind_e (get_prop rt inlineData ''data'')
                         (\<lambda>base64Image.
                            Inr (respond_json hs 200
                                   (JObj [(''base64Image'', base64Image)])))))))"
  using assms
  by (simp add: case_generateImage_def get_prop_ok bind_c_pure_Inr call_generateContent_def
      bind_c_def pure_c_def bind_e_def split: sum.splits)

lemma case_nullish_payload:
  assumes "nullish p"
  shows "case_generateText rt lib hs init p =
           ([], Inl (type_error rt (NullishRead p ''systemPrompt'')))"
    and "case_generateImage rt lib hs init p =
           ([], Inl (type_error rt (NullishRead p ''prompt'')))"
    and "case_describeImage rt lib hs init p =
           ([], Inl (type_error rt (NullishRead p ''systemPrompt'')))"
  using assms
  by (simp_all add: case_generateText_def case_generateImage_def case_describeImage_def
      get_prop_nullish bind_c_pure_Inl)

lemma truthy_field_object: "truthy (field v k) \<Longrightarrow> truthy v"
  by (cases v) simp_all

lemma truthy_not_nullish: "truthy v \<Longrightarrow> \<not> nullish v"
  by (cases v) (simp_all add: nullish_def)

lemma handler_valid_post:
  assumes "req_method req = ''POST''"
    and "GOOGLE_PROJECT_ID ev = Some pid" and "pid \<noteq> []"
    and "GOOGLE_SERVICE_ACCOUNT_KEY ev = Some key" and "key \<noteq> []"
    and "JSON_parse rt key = Inr keyData" and "\<not> nullish keyData"
    and "init = vertex_init (pid, field keyData ''private_key'', field keyData ''client_email'')"
    and "new_VertexAI lib init = None"
    and "getGenerativeModel lib init text_model_params = None"
    and "getGenerativeModel lib init image_model_params = None"
    and "\<not> nullish (body req)"
    and "branch =
           (if field (body req) ''step'' = JStr ''generateText''
            then case_generateText rt lib cors_headers init (field (body req) ''payload'')
            else if field (body req) ''step'' = JStr ''generateImage''
            then case_generateImage rt lib cors_headers init (field (body req) ''payload'')
            else if field (body req) ''step'' = JStr ''describeImage''
            then case_describeImage rt lib cors_headers init (field (body req) ''payload'')
            else ([], Inr (respond_json cors_headers 400
                             (error_envelope ''Invalid step provided''))))"
  shows "handler rt lib ev req =
           \<lparr>result = Responded (case snd branch of
                                   Inr r \<Rightarrow> r
                                 | Inl e \<Rightarrow> catch_api_error cors_headers e),
            sdk_calls = Construct init # GetModel text_model_params #
                          GetModel image_model_params # fst branch,
            console = (case snd branch of Inr r \<Rightarrow> [] | Inl e \<Rightarrow> [e])\<rparr>"
proof -
  have creds: "resolve_credentials rt cors_headers ev =
      Inr (pid, field keyData ''private_key'', field keyData ''client_email'')"
    using assms(2-7) by (rule resolve_credentials_valid)
  have "handler rt lib ev req =
      (case try_body rt lib cors_headers init
              (field (body req) ''step'') (field (body req) ''payload'') of
         (cs, Inr r) \<Rightarrow>
           \<lparr>result = Responded r, sdk_calls = Construct init # cs, console = []\<rparr>
       | (cs, Inl e) \<Rightarrow>
           \<lparr>result = Responded (catch_api_error cors_headers e),
            sdk_calls = Construct init # cs, console = [e]\<rparr>)"
    using handler_post [OF assms(1) creds] assms(8,9,12) by simp
  moreover have "try_body rt lib cors_headers init
        (field (body req) ''step'') (field (body req) ''payload'') =
      (GetModel text_model_params # GetModel image_model_params # fst branch, snd branch)"
    using try_body_ready [OF assms(10,11)] assms(13) by (simp add: case_prod_beta)
  ultimately show ?thesis
    by (simp split: sum.splits)
qed

subsection \<open>The extraction from the provider result, case by case\<close>

text \<open>
  The reads of lines 81, 96 and 121 go down the provider result one property
  at a time; the first value on the way that is \<^verbatim>\<open>undefined\<close> or \<^verbatim>\<open>null\<close>
  makes the next read throw.
\<close>

lemma first_text_total:
  "first_text rt resp =
     (let r = field resp ''response''; cs = field r ''candidates''; c = first_elem cs;
          co = field c ''content''; parts = field co ''parts''; p = first_elem parts
      in if nullish resp then Inl (type_error rt (NullishRead resp ''response''))
         else if nullish r then Inl (type_error rt (NullishRead r ''candidates''))
         else if nullish cs then Inl (type_error rt (NullishRead cs ''0''))
         else if nullish c then Inl (type_error rt (NullishRead c ''content''))
         else if nullish co then Inl (type_error rt (NullishRead co ''parts''))
         else if nullish parts then Inl (type_error rt (NullishRead parts ''0''))
         else if nullish p then Inl (type_error rt (NullishRead p ''text''))
         else Inr (field p ''text''))"
  by (simp add: first_text_def get_prop_def get_first_def bind_e_def Let_def)

lemma find_inline_total:
  "find_inline rt ps =
     (case dropWhile (\<lambda>p. \<not> nullish p \<and> \<not> truthy (field p ''inlineData'')) ps of
        [] \<Rightarrow> Inr JUndefined
      | p # rest \<Rightarrow>
          if nullish p then Inl (type_error rt (NullishRead p ''inlineData'')) else Inr p)"
  by (induction ps) (auto simp: get_prop_def)

lemma call_find_total:
  "call_find rt parts =
     (if nullish parts then Inl (type_error rt (NullishRead parts ''find''))
      else case parts of
             JArr ps \<Rightarrow> find_inline rt ps
           | _ \<Rightarrow> Inl (type_error rt (NotCallable ''find'')))"
  by (cases parts) (simp_all add: nullish_def)

lemma first_image_part_total:
  "first_image_part rt resp =
     (let r = field resp ''response''; cs = field r ''candidates''; c = first_elem cs;
          co = field c ''content''; parts = field co ''parts''
      in if nullish resp then Inl (type_error rt (NullishRead resp ''response''))
         else if nullish r then Inl (type_error rt (NullishRead r ''candidates''))
         else if nullish cs then Inl (type_error rt (NullishRead cs ''0''))
         else if nullish c then Inl (type_error rt (NullishRead c ''content''))
         else if nullish co then Inl (type_error rt (NullishRead co ''parts''))
         else call_find rt parts)"
  by (simp add: first_image_part_def get_prop_def get_first_def bind_e_def Let_def)

lemma dropWhile_hit:
  assumes "dropWhile (\<lambda>p. \<not> nullish p \<and> \<not> truthy (field p ''inlineData'')) ps = p # rest"
    and "\<not> nullish p"
  shows "truthy (field p ''inlineData'')"
  using assms hd_dropWhile [of "\<lambda>p. \<not> nullish p \<and> \<not> truthy (field p ''inlineData'')" ps]
  by auto

text \<open>Lines 96-102 on a provider result.\<close>

lemma image_after_call:
  "bind_e (first_image_part rt resp)
     (\<lambda>imagePart.
        if \<not> truthy imagePart
        then Inl (Thrown ''Error'' ''No image data returned from Imagen.'')
        else bind_e (get_prop rt imagePart ''inlineData'')
          (\<lambda>inlineData. bind_e (get_prop rt inlineData ''data'')
             (\<lambda>base64Image.
                Inr (respond_json hs 200 (JObj [(''base64Image'', base64Image)]))))) =
   (let r = field resp ''response''; cs = field r ''candidates''; c = first_elem cs;
        co = field c ''content''; parts = field co ''parts''
    in if nullish resp then Inl (type_error rt (NullishRead resp ''response''))
       else if nullish r then Inl (type_error rt (NullishRead r ''candidates''))
       else if nullish cs then Inl (type_error rt (NullishRead cs ''0''))
       else if nullish c then Inl (type_error rt (NullishRead c ''content''))
       else if nullish co then Inl (type_error rt (NullishRead co ''parts''))
       else if nullish parts then Inl (type_error rt (NullishRead parts ''find''))
       else case parts of
              JArr ps \<Rightarrow>
                (case dropWhile (\<lambda>p. \<not> nullish p \<and> \<not> truthy (field p ''inlineData'')) ps of
                   [] \<Rightarrow> Inl (Thrown ''Error'' ''No image data returned from Imagen.'')
                 | p # rest \<Rightarrow>
                     if nullish p then Inl (type_error rt (NullishRead p ''inlineData''))
                     else Inr (respond_json hs 200
                                 (JObj [(''base64Image'',
                                           field (field p ''inlineData'') ''data'')])))
            | _ \<Rightarrow> Inl (type_error rt (NotCallable ''find'')))"
proof -
  have arr: "bind_e (find_inline rt ps)
     (\<lambda>imagePart.
        if \<not> truthy imagePart
        then Inl (Thrown ''Error'' ''No image data returned from Imagen.'')
        else bind_e (get_prop rt imagePart ''inlineData'')
          (\<lambda>inlineData. bind_e (get_prop rt inlineData ''data'')
             (\<lambda>base64Image.
                Inr (respond_json hs 200 (JObj [(''base64Image'', base64Image)]))))) =
     (case dropWhile (\<lambda>p. \<not> nullish p \<and> \<not> truthy (field p ''inlineData'')) ps of
        [] \<Rightarrow> Inl (Thrown ''Error'' ''No image data returned from Imagen.'')
      | p # rest \<Rightarrow>
          if nullish p then Inl (type_error rt (NullishRead p ''inlineData''))
          else Inr (respond_json hs 200
                      (JObj [(''base64Image'', field (field p ''inlineData'') ''data'')])))"
    for ps
  proof (cases "dropWhile (\<lambda>p. \<not> nullish p \<and> \<not> truthy (field p ''inlineData'')) ps")
    case Nil
    show ?thesis
      unfolding find_inline_total Nil by (simp add: bind_e_Inr)
  next
    case (Cons p rest)
    show ?thesis
    proof (cases "nullish p")
      case True
      then show ?thesis
        unfolding find_inline_total Cons by (simp add: bind_e_Inl)
    next
      case False
      note t = dropWhile_hit [OF Cons False]
      from False t truthy_field_object [OF t] truthy_not_nullish [OF t] show ?thesis
        unfolding find_inline_total Cons by (simp add: bind_e_Inr get_prop_ok)
    qed
  qed
  show ?thesis
    by (cases "field (field (first_elem (field (field resp ''response'') ''candidates''))
                  ''content'') ''parts''")
      (simp_all add: first_image_part_total call_find_total Let_def bind_e_Inl arr nullish_def)
qed

lemma image_response:
  "(case bind_e (first_image_part rt resp)
            (\<lambda>imagePart.
               if \<not> truthy imagePart
               then Inl (Thrown ''Error'' ''No image data returned from Imagen.'')
               else bind_e (get_prop rt imagePart ''inlineData'')
                 (\<lambda>inlineData. bind_e (get_prop rt inlineData ''data'')
                    (\<lambda>base64Image.
                       Inr (respond_json hs 200 (JObj [(''base64Image'', base64Image)]))))) of
      Inr x \<Rightarrow> Responded x
    | Inl e \<Rightarrow> Responded (catch_api_error hs e)) =
   (let r = field resp ''response''; cs = field r ''candidates''; c = first_elem cs;
        co = field c ''content''; parts = field co ''parts''
    in if nullish resp
       then Responded (catch_api_error hs (type_error rt (NullishRead resp ''response'')))
       else if nullish r
       then Responded (catch_api_error hs (type_error rt (NullishRead r ''candidates'')))
       else if nullish cs
       then Responded (catch_api_error hs (type_error rt (NullishRead cs ''0'')))
       else if nullish c
       then Responded (catch_api_error hs (type_error rt (NullishRead c ''content'')))
       else if nullish co
       then Responded (catch_api_error hs (type_error rt (NullishRead co ''parts'')))
       else if nullish parts
       then Responded (catch_api_error hs (type_error rt (NullishRead parts ''find'')))
       else case parts of
              JArr ps \<Rightarrow>
                (case dropWhile (\<lambda>p. \<not> nullish p \<and> \<not> truthy (field p ''inlineData'')) ps of
                   [] \<Rightarrow>
                     Responded (catch_api_error hs
                                  (Thrown ''Error'' ''No image data returned from Imagen.''))
                 | p # rest \<Rightarrow>
                     if nullish p
                     then Responded (catch_api_error hs
                                       (type_error rt (NullishRead p ''inlineData'')))
                     else Responded (respond_json hs 200
                                       (JObj [(''base64Image'',
                                                 field (field p ''inlineData'') ''data'')])))
            | _ \<Rightarrow> Responded (catch_api_error hs (type_error rt (NotCallable ''find''))))"
  unfolding image_after_call
  by (simp add: Let_def
      if_distrib [of "case_sum (\<lambda>e. Responded (catch_api_error hs e)) Responded"]
      list.case_distrib [of "case_sum (\<lambda>e. Responded (catch_api_error hs e)) Responded"]
      jsval.case_distrib [of "case_sum (\<lambda>e. Responded (catch_api_error hs e)) Responded"]
      cong: if_cong list.case_cong jsval.case_cong)

lemma text_response:
  "(case bind_e (first_text rt resp)
            (\<lambda>t. Inr (respond_json hs 200 (JObj [(''text'', t)]))) of
      Inr x \<Rightarrow> Responded x
    | Inl e \<Rightarrow> Responded (catch_api_error hs e)) =
   (let r = field resp ''response''; cs = field r ''candidates''; c = first_elem cs;
        co = field c ''content''; parts = field co ''parts''; p = first_elem parts
    in if nullish resp
       then Responded (catch_api_error hs (type_error rt (NullishRead resp ''response'')))
       else if nullish r
       then Responded (catch_api_error hs (type_error rt (NullishRead r ''candidates'')))
       else if nullish cs
       then Responded (catch_api_error hs (type_error rt (NullishRead cs ''0'')))
       else if nullish c
       then Responded (catch_api_error hs (type_error rt (NullishRead c ''content'')))
       else if nullish co
       then Responded (catch_api_error hs (type_error rt (NullishRead co ''parts'')))
       else if nullish parts
       then Responded (catch_api_error hs (type_error rt (NullishRead parts ''0'')))
       else if nullish p
       then Responded (catch_api_error hs (type_error rt (NullishRead p ''text'')))
       else Responded (respond_json hs 200 (JObj [(''text'', field p ''text'')])))"
  by (simp add: first_text_total Let_def bind_e_def)

text \<open>The three branches on a request that reaches the provider call.\<close>

lemma generateText_run:
  assumes "req_method req = ''POST''"
    and "GOOGLE_PROJECT_ID ev = Some pid" and "pid \<noteq> []"
    and "GOOGLE_SERVICE_ACCOUNT_KEY ev = Some key" and "key \<noteq> []"
    and "JSON_parse rt key = Inr keyData" and "\<not> nullish keyData"
    and "init = vertex_init (pid, field keyData ''private_key'', field keyData ''client_email'')"
    and "new_VertexAI lib init = None"
    and "getGenerativeModel lib init text_model_params = None"
    and "getGenerativeModel lib init image_model_params = None"
    and "\<not> nullish (body req)"
    and "field (body req) ''step'' = JStr ''generateText''"
    and "\<not> nullish (field (body req) ''payload'')"
    and "rq = text_request (field (field (body req) ''payload'') ''systemPrompt'')
                (field (field (body req) ''payload'') ''userQuery'')"
    and "answer =
           bind_e (generateContent lib init text_model_params rq)
             (\<lambda>resp. bind_e (first_text rt resp)
                (\<lambda>t. Inr (respond_json cors_headers 200 (JObj [(''text'', t)]))))"
  shows "handler rt lib ev req =
      \<lparr>result = Responded
         (case answer of Inr r \<Rightarrow> r | Inl e \<Rightarrow> catch_api_error cors_headers e),
       sdk_calls = [Construct init, GetModel text_model_params, GetModel image_model_params,
                    GenerateContent text_model_params rq],
       console = (case answer of Inr r \<Rightarrow> [] | Inl e \<Rightarrow> [e])\<rparr>"
  using handler_valid_post [OF assms(1-12) refl] assms(13)
    case_generateText_run [OF assms(14), of rt lib cors_headers init] assms(15,16)
  by simp

lemma describeImage_run:
  assumes "req_method req = ''POST''"
    and "GOOGLE_PROJECT_ID ev = Some pid" and "pid \<noteq> []"
    and "GOOGLE_SERVICE_ACCOUNT_KEY ev = Some key" and "key \<noteq> []"
    and "JSON_parse rt key = Inr keyData" and "\<not> nullish keyData"
    and "init = vertex_init (pid, field keyData ''private_key'', field keyData ''client_email'')"
    and "new_VertexAI lib init = None"
    and "getGenerativeModel lib init text_model_params = None"
    and "getGenerativeModel lib init image_model_params = None"
    and "\<not> nullish (body req)"
    and "field (body req) ''step'' = JStr ''describeImage''"
    and "\<not> nullish (field (body req) ''payload'')"
    and "rq = describe_request (field (field (body req) ''payload'') ''systemPrompt'')
                (field (field (body req) ''payload'') ''base64Data'')"
    and "answer =
           bind_e (generateContent lib init text_model_params rq)
             (\<lambda>resp. bind_e (first_text rt resp)
                (\<lambda>t. Inr (respond_json cors_headers 200 (JObj [(''text'', t)]))))"
  shows "handler rt lib ev req =
      \<lparr>result = Responded
         (case answer of Inr r \<Rightarrow> r | Inl e \<Rightarrow> catch_api_error cors_headers e),
       sdk_calls = [Construct init, GetModel text_model_params, GetModel image_model_params,
                    GenerateContent text_model_params rq],
       console = (case answer of Inr r \<Rightarrow> [] | Inl e \<Rightarrow> [e])\<rparr>"
  using handler_valid_post [OF assms(1-12) refl] assms(13)
    case_describeImage_run [OF assms(14), of rt lib cors_headers init] assms(15,16)
  by simp

lemma generateImage_run:
  assumes "req_method req = ''POST''"
    and "GOOGLE_PROJECT_ID ev = Some pid" and "pid \<noteq> []"
    and "GOOGLE_SERVICE_ACCOUNT_KEY ev = Some key" and "key \<noteq> []"
    and "JSON_parse rt key = Inr keyData" and "\<not> nullish keyData"
    and "init = vertex_init (pid, field keyData ''private_key'', field keyData ''client_email'')"
    and "new_VertexAI lib init = None"
    and "getGenerativeModel lib init text_model_params = None"
    and "getGenerativeModel lib init image_model_params = None"
    and "\<not> nullish (body req)"
    and "field (body req) ''step'' = JStr ''generateImage''"
    and "\<not> nullish (field (body req) ''payload'')"
    and "rq = image_request (field (field (body req) ''payload'') ''prompt'')"
    and "answer =
           bind_e (generateContent lib init image_model_params rq)
             (\<lambda>resp. bind_e (first_image_part rt resp)
                (\<lambda>imagePart.
                   if \<not> truthy imagePart
                   then Inl (Thrown ''Error'' ''No image data returned from Imagen.'')
                   else bind_e (get_prop rt imagePart ''inlineData'')
                     (\<lambda>inlineData. bind_e (get_prop rt inlineData ''data'')
                        (\<lambda>base64Image.
                           Inr (respond_json cors_headers 200
                                  (JObj [(''base64Image'', base64Image)]))))))"
  shows "handler rt lib ev req =
      \<lparr>result = Responded
         (case answer of Inr r \<Rightarrow> r | Inl e \<Rightarrow> catch_api_error cors_headers e),
       sdk_calls = [Construct init, GetModel text_model_params, GetModel image_model_params,
                    GenerateContent image_model_params rq],
       console = (case answer of Inr r \<Rightarrow> [] | Inl e \<Rightarrow> [e])\<rparr>"
  using handler_valid_post [OF assms(1-12) refl] assms(13)
    case_generateImage_run [OF assms(14), of rt lib cors_headers init] assms(15,16)
  by simp

lemma branch_result:
  assumes "handler rt lib ev req =
      \<lparr>result = Responded
         (case bind_e g k of Inr r \<Rightarrow> r | Inl e \<Rightarrow> catch_api_error hs e),
       sdk_calls = calls,
       console = (case bind_e g k of Inr r \<Rightarrow> [] | Inl e \<Rightarrow> [e])\<rparr>"
  shows "sdk_calls (handler rt lib ev req) = calls"
    and "g = Inl e \<Longrightarrow> result (handler rt lib ev req) = Responded (catch_api_error hs e)"
    and "g = Inr resp \<Longrightarrow>
         result (handler rt lib ev req) =
           (case k resp of
              Inr x \<Rightarrow> Responded x
            | Inl e \<Rightarrow> Responded (catch_api_error hs e))"
  by (simp_all add: assms bind_e_def split: sum.splits)

subsection \<open>What the second try block catches\<close>

text \<open>
  An error thrown by the provider call of any of the three steps is caught
  (lines 128-131): it is written to the console and answered with status 500
  and \<^verbatim>\<open>{error: "API Error: <message>"}\<close>.
\<close>

theorem provider_failure_mapping:
  assumes "req_method req = ''POST''"
    and "GOOGLE_PROJECT_ID ev = Some pid" and "pid \<noteq> []"
    and "GOOGLE_SERVICE_ACCOUNT_KEY ev = Some key" and "key \<noteq> []"
    and "JSON_parse rt key = Inr keyData" and "\<not> nullish keyData"
    and "init = vertex_init (pid, field keyData ''private_key'', field keyData ''client_email'')"
    and "new_VertexAI lib init = None"
    and "getGenerativeModel lib init text_model_params = None"
    and "getGenerativeModel lib init image_model_params = None"
    and "\<not> nullish (body req)"
    and "sdk_calls (handler rt lib ev req) =
           [Construct init, GetModel text_model_params, GetModel image_model_params,
            GenerateContent m rq]"
    and "generateContent lib init m rq = Inl e"
  shows "result (handler rt lib ev req) =
           Responded
             \<lparr>status = 500,
              headers = [(''Access-Control-Allow-Origin'', ''*''),
                         (''Access-Control-Allow-Methods'', ''POST, OPTIONS''),
                         (''Access-Control-Allow-Headers'', ''Content-Type'')],
              payload_sent = Json (JObj [(''error'', JStr (''API Error: '' @ message e))])\<rparr> \<and>
         console (handler rt lib ev req) = [e]"
proof -
  note h = handler_valid_post [OF assms(1-12) refl]
  let ?p = "field (body req) ''payload''"
  have np: "\<not> nullish ?p"
  proof
    assume n: "nullish ?p"
    from assms(13) show False
      by (simp add: h case_nullish_payload [OF n] split: if_splits)
  qed
  from assms(13,14) show ?thesis
    by (auto simp: h case_generateText_run [OF np] case_generateImage_run [OF np]
        case_describeImage_run [OF np] bind_e_Inl catch_api_error_def respond_json_def
        error_envelope_def cors_headers_eq
        split: if_splits)
qed

theorem provider_failure_mapping_witness:
  "sdk_calls (handler sample_rt failing_lib sample_env
                (post ''generateImage'' (JObj [(''prompt'', JStr ''P'')]))) =
     [Construct sample_init, GetModel text_model_params, GetModel image_model_params,
      GenerateContent image_model_params (image_request (JStr ''P''))] \<and>
   generateContent failing_lib sample_init image_model_params (image_request (JStr ''P'')) =
     Inl (Thrown ''ClientError'' ''quota exceeded'') \<and>
   result (handler sample_rt failing_lib sample_env
             (post ''generateImage'' (JObj [(''prompt'', JStr ''P'')]))) =
     Responded
       \<lparr>status = 500,
        headers = [(''Access-Control-Allow-Origin'', ''*''),
                   (''Access-Control-Allow-Methods'', ''POST, OPTIONS''),
                   (''Access-Control-Allow-Headers'', ''Content-Type'')],
        payload_sent = Json (JObj [(''error'', JStr ''API Error: quota exceeded'')])\<rparr> \<and>
   console (handler sample_rt failing_lib sample_env
              (post ''generateImage'' (JObj [(''prompt'', JStr ''P'')]))) =
     [Thrown ''ClientError'' ''quota exceeded'']"
proof -
  let ?req = "post ''generateImage'' (JObj [(''prompt'', JStr ''P'')])"
  have calls: "sdk_calls (handler sample_rt failing_lib sample_env ?req) =
      [Construct sample_init, GetModel text_model_params, GetModel image_model_params,
       GenerateContent image_model_params (image_request (JStr ''P''))]"
    by (simp add: handler_eval sample_eval)
  have fails: "generateContent failing_lib sample_init image_model_params
      (image_request (JStr ''P'')) = Inl (Thrown ''ClientError'' ''quota exceeded'')"
    by (simp add: failing_lib_def)
  from provider_failure_mapping
    [where req = ?req and ev = sample_env and rt = sample_rt and lib = failing_lib
      and init = sample_init and pid = "''my-project''" and key = sample_key
      and keyData = "JObj [(''private_key'', JStr ''K''), (''client_email'', JStr ''E'')]",
      OF _ _ _ _ _ _ _ _ _ _ _ _ calls fails]
  have "result (handler sample_rt failing_lib sample_env ?req) =
      Responded
       \<lparr>status = 500,
        headers = [(''Access-Control-Allow-Origin'', ''*''),
                   (''Access-Control-Allow-Methods'', ''POST, OPTIONS''),
                   (''Access-Control-Allow-Headers'', ''Content-Type'')],
        payload_sent = Json (JObj [(''error'', JStr ''API Error: quota exceeded'')])\<rparr> \<and>
    console (handler sample_rt failing_lib sample_env ?req) =
      [Thrown ''ClientError'' ''quota exceeded'']"
    by (simp add: sample_eval nullish_def vertex_init_def)
  with calls fails show ?thesis
    by simp
qed

subsection \<open>Headers\<close>

lemma case_generateText_headers:
  "snd (case_generateText rt lib hs init p) = Inr r \<Longrightarrow> headers r = hs"
  unfolding case_generateText_def
  by (auto dest!: snd_bind_c_Inr_D simp: snd_pure_c respond_json_def)

lemma case_describeImage_headers:
  "snd (case_describeImage rt lib hs init p) = Inr r \<Longrightarrow> headers r = hs"
  unfolding case_describeImage_def
  by (auto dest!: snd_bind_c_Inr_D simp: snd_pure_c respond_json_def)

lemma case_generateImage_headers:
  "snd (case_generateImage rt lib hs init p) = Inr r \<Longrightarrow> headers r = hs"
  unfolding case_generateImage_def
  by (auto dest!: snd_bind_c_Inr_D simp: snd_pure_c respond_json_def split: if_splits)

lemma try_body_headers:
  "snd (try_body rt lib hs init step p) = Inr r \<Longrightarrow> headers r = hs"
  unfolding try_body_def
  by (auto dest!: snd_bind_c_Inr_D
      simp: snd_pure_c respond_json_def case_generateText_headers
        case_generateImage_headers case_describeImage_headers
      split: if_splits)

lemma resolve_credentials_headers:
  "resolve_credentials rt hs ev = Inl r \<Longrightarrow> headers r = hs"
  by (auto simp: resolve_credentials_def respond_json_def split: option.splits if_splits sum.splits)

lemma try_body_pair_headers:
  "try_body rt lib hs init step p = (cs, Inr r) \<Longrightarrow> headers r = hs"
  using try_body_headers [of rt lib hs init step p r] by simp

lemma handler_headers:
  "result (handler rt lib ev req) = Responded r \<Longrightarrow> headers r = cors_headers"
  by (auto simp: handler_def Let_def finish_def respond_end_def respond_json_def
        catch_api_error_def
      dest: resolve_credentials_headers try_body_pair_headers
      split: if_splits sum.splits option.splits prod.splits)

subsection \<open>C1: generateText\<close>

text \<open>
  C1. A POST request that passes credential resolution, with
  \<^verbatim>\<open>step = "generateText"\<close> and a payload holding \<^verbatim>\<open>systemPrompt\<close> and
  \<^verbatim>\<open>userQuery\<close>, makes exactly one provider call: \<^verbatim>\<open>generateContent\<close> of
  the text model, with \<^verbatim>\<open>systemPrompt\<close> as the only part of the system
  instruction and \<^verbatim>\<open>userQuery\<close> as the only part of the only message, of role
  user. When the provider returns a result whose first candidate has a first
  part, the response is status 200 with the body \<^verbatim>\<open>{text}\<close>, the
  \<^verbatim>\<open>text\<close> of that part. The request has a body and a payload, and the
  library builds the client and the models.
\<close>

theorem generateText_contract:
  assumes "req_method req = ''POST''"
    and "GOOGLE_PROJECT_ID ev = Some pid" and "pid \<noteq> []"
    and "GOOGLE_SERVICE_ACCOUNT_KEY ev = Some key" and "key \<noteq> []"
    and "JSON_parse rt key = Inr keyData" and "\<not> nullish keyData"
    and "init = vertex_init (pid, field keyData ''private_key'', field keyData ''client_email'')"
    and "new_VertexAI lib init = None"
    and "getGenerativeModel lib init text_model_params = None"
    and "getGenerativeModel lib init image_model_params = None"
    and "\<not> nullish (body req)"
    and "field (body req) ''step'' = JStr ''generateText''"
    and "\<not> nullish (field (body req) ''payload'')"
    and "systemPrompt = field (field (body req) ''payload'') ''systemPrompt''"
    and "userQuery = field (field (body req) ''payload'') ''userQuery''"
    and "rq = JObj [(''contents'',
                       JArr [JObj [(''role'', JStr ''user''),
                                   (''parts'', JArr [JObj [(''text'', userQuery)]])]]),
                    (''systemInstruction'',
                       JObj [(''parts'', JArr [JObj [(''text'', systemPrompt)]])])]"
  shows "sdk_calls (handler rt lib ev req) =
           [Construct init, GetModel text_model_params, GetModel image_model_params,
            GenerateContent text_model_params rq] \<and>
         text_model_params = JObj [(''model'', JStr ''gemini-2.5-flash-preview-09-2025'')] \<and>
         (\<forall>resp c cs p ps.
            generateContent lib init text_model_params rq = Inr resp \<and>
            field (field resp ''response'') ''candidates'' = JArr (c # cs) \<and>
            field (field c ''content'') ''parts'' = JArr (p # ps) \<and>
            \<not> nullish p \<longrightarrow>
            result (handler rt lib ev req) =
              Responded
                \<lparr>status = 200,
                 headers = [(''Access-Control-Allow-Origin'', ''*''),
                            (''Access-Control-Allow-Methods'', ''POST, OPTIONS''),
                            (''Access-Control-Allow-Headers'', ''Content-Type'')],
                 payload_sent = Json (JObj [(''text'', field p ''text'')])\<rparr>)"
proof -
  have rq: "rq = text_request (field (field (body req) ''payload'') ''systemPrompt'')
                   (field (field (body req) ''payload'') ''userQuery'')"
    using assms(15-17) by (simp add: text_request_def)
  have h: "handler rt lib ev req =
      \<lparr>result = Responded
         (case bind_e (generateContent lib init text_model_params rq)
                 (\<lambda>resp. bind_e (first_text rt resp)
                    (\<lambda>t. Inr (respond_json cors_headers 200 (JObj [(''text'', t)])))) of
            Inr r \<Rightarrow> r | Inl e \<Rightarrow> catch_api_error cors_headers e),
       sdk_calls = [Construct init, GetModel text_model_params, GetModel image_model_params,
                    GenerateContent text_model_params rq],
       console =
         (case bind_e (generateContent lib init text_model_params rq)
                 (\<lambda>resp. bind_e (first_text rt resp)
                    (\<lambda>t. Inr (respond_json cors_headers 200 (JObj [(''text'', t)])))) of
            Inr r \<Rightarrow> [] | Inl e \<Rightarrow> [e])\<rparr>"
    using handler_valid_post [OF assms(1-12) refl] assms(13)
      case_generateText_run [OF assms(14), of rt lib cors_headers init] rq
    by simp
  show ?thesis
  proof (intro conjI allI impI)
    show "sdk_calls (handler rt lib ev req) =
        [Construct init, GetModel text_model_params, GetModel image_model_params,
         GenerateContent text_model_params rq]"
      by (simp add: h)
  next
    show "text_model_params = JObj [(''model'', JStr ''gemini-2.5-flash-preview-09-2025'')]"
      by (simp add: text_model_params_def)
  next
    fix resp c cs p ps
    assume a: "generateContent lib init text_model_params rq = Inr resp \<and>
        field (field resp ''response'') ''candidates'' = JArr (c # cs) \<and>
        field (field c ''content'') ''parts'' = JArr (p # ps) \<and> \<not> nullish p"
    then have "first_text rt resp = Inr (field p ''text'')"
      by (intro first_text_shape [of resp c cs p ps]) (auto simp: nullish_def)
    with a show "result (handler rt lib ev req) =
        Responded
          \<lparr>status = 200,
           headers = [(''Access-Control-Allow-Origin'', ''*''),
                      (''Access-Control-Allow-Methods'', ''POST, OPTIONS''),
                      (''Access-Control-Allow-Headers'', ''Content-Type'')],
           payload_sent = Json (JObj [(''text'', field p ''text'')])\<rparr>"
      by (simp add: h bind_e_Inr respond_json_def cors_headers_eq)
  qed
qed


theorem generateText_contract_witness:
  "req_method (post ''generateText''
                 (JObj [(''systemPrompt'', JStr ''S''), (''userQuery'', JStr ''Q'')])) = ''POST'' \<and>
   GOOGLE_PROJECT_ID sample_env = Some ''my-project'' \<and>
   GOOGLE_SERVICE_ACCOUNT_KEY sample_env = Some sample_key \<and>
   JSON_parse sample_rt sample_key =
     Inr (JObj [(''private_key'', JStr ''K''), (''client_email'', JStr ''E'')]) \<and>
   sdk_calls (handler sample_rt sample_lib sample_env
                (post ''generateText''
                   (JObj [(''systemPrompt'', JStr ''S''), (''userQuery'', JStr ''Q'')]))) =
     [Construct sample_init, GetModel text_model_params, GetModel image_model_params,
      GenerateContent text_model_params
        (JObj [(''contents'',
                  JArr [JObj [(''role'', JStr ''user''),
                              (''parts'', JArr [JObj [(''text'', JStr ''Q'')]])]]),
               (''systemInstruction'',
                  JObj [(''parts'', JArr [JObj [(''text'', JStr ''S'')]])])])] \<and>
   generateContent sample_lib sample_init text_model_params
     (JObj [(''contents'',
               JArr [JObj [(''role'', JStr ''user''),
                           (''parts'', JArr [JObj [(''text'', JStr ''Q'')]])]]),
            (''systemInstruction'',
               JObj [(''parts'', JArr [JObj [(''text'', JStr ''S'')]])])]) =
     Inr (result_with_parts [JObj [(''text'', JStr ''hello'')]]) \<and>
   result (handler sample_rt sample_lib sample_env
             (post ''generateText''
                (JObj [(''systemPrompt'', JStr ''S''), (''userQuery'', JStr ''Q'')]))) =
     Responded
       \<lparr>status = 200,
        headers = [(''Access-Control-Allow-Origin'', ''*''),
                   (''Access-Control-Allow-Methods'', ''POST, OPTIONS''),
                   (''Access-Control-Allow-Headers'', ''Content-Type'')],
        payload_sent = Json (JObj [(''text'', JStr ''hello'')])\<rparr>"
  using generateText_contract
    [where req = "post ''generateText''
                    (JObj [(''systemPrompt'', JStr ''S''), (''userQuery'', JStr ''Q'')])"
      and ev = sample_env and rt = sample_rt and lib = sample_lib and init = sample_init
      and pid = "''my-project''" and key = sample_key
      and keyData = "JObj [(''private_key'', JStr ''K''), (''client_email'', JStr ''E'')]"
      and systemPrompt = "JStr ''S''" and userQuery = "JStr ''Q''", OF _ _ _ _ _ _ _ _ _ _ _ _ _ _ _ _ refl]
  by (simp add: sample_eval nullish_def vertex_init_def text_model_params_def
      image_model_params_def)

subsection \<open>C2: generateImage\<close>

text \<open>
  C2, as the handler has it. A POST request that passes credential resolution,
  with \<^verbatim>\<open>step = "generateImage"\<close>, makes exactly one provider call:
  \<^verbatim>\<open>generateContent\<close> of the image model, with \<^verbatim>\<open>payload.prompt\<close> as the
  only part of the only message, of role user, and the response modality
  IMAGE. The result is read as \<^verbatim>\<open>resp.response.candidates[0].content.parts\<close>.
  When that is an array, its parts are searched in order: the first part with
  inline data gives status 200 with \<^verbatim>\<open>{base64Image}\<close>, the \<^verbatim>\<open>data\<close> of that
  part's inline data, and an array without such a part gives status 500 with
  \<^verbatim>\<open>{error: "API Error: No image data returned from Imagen."}\<close>. When the
  result has no first candidate, no content or no array of parts, or a
  \<^verbatim>\<open>null\<close> part stands before the first inline image, the read itself throws
  and the response is status 500 with
  \<^verbatim>\<open>{error: "API Error: <message of the TypeError>"}\<close>.
\<close>

theorem generateImage_outcome:
  assumes "req_method req = ''POST''"
    and "GOOGLE_PROJECT_ID ev = Some pid" and "pid \<noteq> []"
    and "GOOGLE_SERVICE_ACCOUNT_KEY ev = Some key" and "key \<noteq> []"
    and "JSON_parse rt key = Inr keyData" and "\<not> nullish keyData"
    and "init = vertex_init (pid, field keyData ''private_key'', field keyData ''client_email'')"
    and "new_VertexAI lib init = None"
    and "getGenerativeModel lib init text_model_params = None"
    and "getGenerativeModel lib init image_model_params = None"
    and "\<not> nullish (body req)"
    and "field (body req) ''step'' = JStr ''generateImage''"
    and "\<not> nullish (field (body req) ''payload'')"
    and "prompt = field (field (body req) ''payload'') ''prompt''"
    and "rq = JObj [(''contents'',
                       JArr [JObj [(''role'', JStr ''user''),
                                   (''parts'', JArr [JObj [(''text'', prompt)]])]]),
                    (''generationConfig'',
                       JObj [(''responseModalities'', JArr [JStr ''IMAGE''])])]"
    and "fail = (\<lambda>msg. Responded
                     \<lparr>status = 500,
                      headers = [(''Access-Control-Allow-Origin'', ''*''),
                                 (''Access-Control-Allow-Methods'', ''POST, OPTIONS''),
                                 (''Access-Control-Allow-Headers'', ''Content-Type'')],
                      payload_sent = Json (JObj [(''error'', JStr (''API Error: '' @ msg))])\<rparr>)"
  shows "sdk_calls (handler rt lib ev req) =
           [Construct init, GetModel text_model_params, GetModel image_model_params,
            GenerateContent image_model_params rq] \<and>
         image_model_params = JObj [(''model'', JStr ''imagen-3.0-generate-002'')] \<and>
         (\<forall>resp r cs c co parts.
            generateContent lib init image_model_params rq = Inr resp \<and>
            r = field resp ''response'' \<and> cs = field r ''candidates'' \<and>
            c = first_elem cs \<and> co = field c ''content'' \<and> parts = field co ''parts'' \<longrightarrow>
            result (handler rt lib ev req) =
              (if nullish resp then fail (type_error_text rt (NullishRead resp ''response''))
               else if nullish r then fail (type_error_text rt (NullishRead r ''candidates''))
               else if nullish cs then fail (type_error_text rt (NullishRead cs ''0''))
               else if nullish c then fail (type_error_text rt (NullishRead c ''content''))
               else if nullish co then fail (type_error_text rt (NullishRead co ''parts''))
               else if nullish parts then fail (type_error_text rt (NullishRead parts ''find''))
               else case parts of
                 JArr ps \<Rightarrow>
                   (case dropWhile (\<lambda>p. \<not> nullish p \<and> \<not> truthy (field p ''inlineData'')) ps of
                      [] \<Rightarrow> fail ''No image data returned from Imagen.''
                    | p # rest \<Rightarrow>
                        if nullish p
                        then fail (type_error_text rt (NullishRead p ''inlineData''))
                        else Responded
                          \<lparr>status = 200,
                           headers = [(''Access-Control-Allow-Origin'', ''*''),
                                      (''Access-Control-Allow-Methods'', ''POST, OPTIONS''),
                                      (''Access-Control-Allow-Headers'', ''Content-Type'')],
                           payload_sent =
                             Json (JObj [(''base64Image'',
                                            field (field p ''inlineData'') ''data'')])\<rparr>)
               | _ \<Rightarrow> fail (type_error_text rt (NotCallable ''find''))))"
proof -
  have rq: "rq = image_request (field (field (body req) ''payload'') ''prompt'')"
    using assms(15,16) by (simp add: image_request_def)
  note h = generateImage_run [OF assms(1-14) rq refl]
  have fail: "Responded (catch_api_error cors_headers e) = fail (message e)" for e
    by (simp add: assms(17) catch_api_error_def respond_json_def error_envelope_def
        cors_headers_eq)
  have ok: "respond_json cors_headers 200 b =
      \<lparr>status = 200,
       headers = [(''Access-Control-Allow-Origin'', ''*''),
                  (''Access-Control-Allow-Methods'', ''POST, OPTIONS''),
                  (''Access-Control-Allow-Headers'', ''Content-Type'')],
       payload_sent = Json b\<rparr>" for b
    by (simp add: respond_json_def cors_headers_eq)
  show ?thesis
  proof (intro conjI allI impI)
    show "sdk_calls (handler rt lib ev req) =
        [Construct init, GetModel text_model_params, GetModel image_model_params,
         GenerateContent image_model_params rq]"
      by (simp add: h)
  next
    show "image_model_params = JObj [(''model'', JStr ''imagen-3.0-generate-002'')]"
      by (simp add: image_model_params_def)
  next
    fix resp r cs c co parts
    assume a: "generateContent lib init image_model_params rq = Inr resp \<and>
            r = field resp ''response'' \<and> cs = field r ''candidates'' \<and>
            c = first_elem cs \<and> co = field c ''content'' \<and> parts = field co ''parts''"
    then have g: "generateContent lib init image_model_params rq = Inr resp"
      by simp
    have "result (handler rt lib ev req) =
        (case (let r = field resp ''response''; cs = field r ''candidates''; c = first_elem cs;
                   co = field c ''content''; parts = field co ''parts''
               in if nullish resp then Inl (type_error rt (NullishRead resp ''response''))
                  else if nullish r then Inl (type_error rt (NullishRead r ''candidates''))
                  else if nullish cs then Inl (type_error rt (NullishRead cs ''0''))
                  else if nullish c then Inl (type_error rt (NullishRead c ''content''))
                  else if nullish co then Inl (type_error rt (NullishRead co ''parts''))
                  else if nullish parts then Inl (type_error rt (NullishRead parts ''find''))
                  else case parts of
                    JArr ps \<Rightarrow>
                      (case dropWhile (\<lambda>p. \<not> nullish p \<and> \<not> truthy (field p ''inlineData'')) ps of
                         [] \<Rightarrow> Inl (Thrown ''Error'' ''No image data returned from Imagen.'')
                       | p # rest \<Rightarrow>
                           if nullish p then Inl (type_error rt (NullishRead p ''inlineData''))
                           else Inr (respond_json cors_headers 200
                                       (JObj [(''base64Image'',
                                                 field (field p ''inlineData'') ''data'')])))
                  | _ \<Rightarrow> Inl (type_error rt (NotCallable ''find''))) of
           Inr x \<Rightarrow> Responded x
         | Inl e \<Rightarrow> fail (message e))"
      unfolding h g bind_e_Inr image_after_call
      by (simp add: fail [symmetric] split: sum.splits)
    with a show "result (handler rt lib ev req) =
              (if nullish resp then fail (type_error_text rt (NullishRead resp ''response''))
               else if nullish r then fail (type_error_text rt (NullishRead r ''candidates''))
               else if nullish cs then fail (type_error_text rt (NullishRead cs ''0''))
               else if nullish c then fail (type_error_text rt (NullishRead c ''content''))
               else if nullish co then fail (type_error_text rt (NullishRead co ''parts''))
               else if nullish parts then fail (type_error_text rt (NullishRead parts ''find''))
               else case parts of
                 JArr ps \<Rightarrow>
                   (case dropWhile (\<lambda>p. \<not> nullish p \<and> \<not> truthy (field p ''inlineData'')) ps of
                      [] \<Rightarrow> fail ''No image data returned from Imagen.''
                    | p # rest \<Rightarrow>
                        if nullish p
                        then fail (type_error_text rt (NullishRead p ''inlineData''))
                        else Responded
                          \<lparr>status = 200,
                           headers = [(''Access-Control-Allow-Origin'', ''*''),
                                      (''Access-Control-Allow-Methods'', ''POST, OPTIONS''),
                                      (''Access-Control-Allow-Headers'', ''Content-Type'')],
                           payload_sent =
                             Json (JObj [(''base64Image'',
                                            field (field p ''inlineData'') ''data'')])\<rparr>)
               | _ \<Rightarrow> fail (type_error_text rt (NotCallable ''find'')))"
      by (simp add: Let_def type_error_def ok
          if_distrib [of "case_sum (\<lambda>e. fail (message e)) Responded"]
          list.case_distrib [of "case_sum (\<lambda>e. fail (message e)) Responded"]
          jsval.case_distrib [of "case_sum (\<lambda>e. fail (message e)) Responded"]
          cong: if_cong list.case_cong jsval.case_cong)
  qed
qed


theorem generateImage_outcome_witness:
  "req_method (post ''generateImage'' (JObj [(''prompt'', JStr ''P'')])) = ''POST'' \<and>
   GOOGLE_PROJECT_ID sample_env = Some ''my-project'' \<and>
   GOOGLE_SERVICE_ACCOUNT_KEY sample_env = Some sample_key \<and>
   JSON_parse sample_rt sample_key =
     Inr (JObj [(''private_key'', JStr ''K''), (''client_email'', JStr ''E'')]) \<and>
   sdk_calls (handler sample_rt sample_lib sample_env
                (post ''generateImage'' (JObj [(''prompt'', JStr ''P'')]))) =
     [Construct sample_init, GetModel text_model_params, GetModel image_model_params,
      GenerateContent image_model_params
        (JObj [(''contents'',
                  JArr [JObj [(''role'', JStr ''user''),
                              (''parts'', JArr [JObj [(''text'', JStr ''P'')]])]]),
               (''generationConfig'',
                  JObj [(''responseModalities'', JArr [JStr ''IMAGE''])])])] \<and>
   generateContent sample_lib sample_init image_model_params
     (JObj [(''contents'',
               JArr [JObj [(''role'', JStr ''user''),
                           (''parts'', JArr [JObj [(''text'', JStr ''P'')]])]]),
            (''generationConfig'',
               JObj [(''responseModalities'', JArr [JStr ''IMAGE''])])]) =
     Inr (result_with_parts
            [JObj [(''text'', JStr ''caption'')],
             JObj [(''inlineData'',
                      JObj [(''mimeType'', JStr ''image/png''), (''data'', JStr ''QUJD'')])]]) \<and>
   result (handler sample_rt sample_lib sample_env
             (post ''generateImage'' (JObj [(''prompt'', JStr ''P'')]))) =
     Responded
       \<lparr>status = 200,
        headers = [(''Access-Control-Allow-Origin'', ''*''),
                   (''Access-Control-Allow-Methods'', ''POST, OPTIONS''),
                   (''Access-Control-Allow-Headers'', ''Content-Type'')],
        payload_sent = Json (JObj [(''base64Image'', JStr ''QUJD'')])\<rparr> \<and>
   generateContent text_only_lib sample_init image_model_params
     (JObj [(''contents'',
               JArr [JObj [(''role'', JStr ''user''),
                           (''parts'', JArr [JObj [(''text'', JStr ''P'')]])]]),
            (''generationConfig'',
               JObj [(''responseModalities'', JArr [JStr ''IMAGE''])])]) =
     Inr (result_with_parts [JObj [(''text'', JStr ''no picture'')]]) \<and>
   result (handler sample_rt text_only_lib sample_env
             (post ''generateImage'' (JObj [(''prompt'', JStr ''P'')]))) =
     Responded
       \<lparr>status = 500,
        headers = [(''Access-Control-Allow-Origin'', ''*''),
                   (''Access-Control-Allow-Methods'', ''POST, OPTIONS''),
                   (''Access-Control-Allow-Headers'', ''Content-Type'')],
        payload_sent =
          Json (JObj [(''error'',
                  JStr ''API Error: No image data returned from Imagen.'')])\<rparr> \<and>
   generateContent blocked_lib sample_init image_model_params
     (JObj [(''contents'',
               JArr [JObj [(''role'', JStr ''user''),
                           (''parts'', JArr [JObj [(''text'', JStr ''P'')]])]]),
            (''generationConfig'',
               JObj [(''responseModalities'', JArr [JStr ''IMAGE''])])]) =
     Inr blocked_result \<and>
   result (handler sample_rt blocked_lib sample_env
             (post ''generateImage'' (JObj [(''prompt'', JStr ''P'')]))) =
     Responded
       \<lparr>status = 500,
        headers = [(''Access-Control-Allow-Origin'', ''*''),
                   (''Access-Control-Allow-Methods'', ''POST, OPTIONS''),
                   (''Access-Control-Allow-Headers'', ''Content-Type'')],
        payload_sent =
          Json (JObj [(''error'',
                  JStr (''API Error: '' @
                        type_error_text sample_rt (NullishRead JUndefined ''find'')))])\<rparr>"
proof -
  let ?req = "post ''generateImage'' (JObj [(''prompt'', JStr ''P'')])"
  let ?rq = "JObj [(''contents'',
                      JArr [JObj [(''role'', JStr ''user''),
                                  (''parts'', JArr [JObj [(''text'', JStr ''P'')]])]]),
                   (''generationConfig'',
                      JObj [(''responseModalities'', JArr [JStr ''IMAGE''])])]"
  let ?keyData = "JObj [(''private_key'', JStr ''K''), (''client_email'', JStr ''E'')]"
  let ?pic = "JObj [(''inlineData'',
                      JObj [(''mimeType'', JStr ''image/png''), (''data'', JStr ''QUJD'')])]"
  let ?fail = "\<lambda>msg. Responded
                 \<lparr>status = 500,
                  headers = [(''Access-Control-Allow-Origin'', ''*''),
                   (''Access-Control-Allow-Methods'', ''POST, OPTIONS''),
                   (''Access-Control-Allow-Headers'', ''Content-Type'')],
                  payload_sent = Json (JObj [(''error'', JStr (''API Error: '' @ msg))])\<rparr>"
  let ?r1 = "result_with_parts [JObj [(''text'', JStr ''caption'')], ?pic]"
  let ?r2 = "result_with_parts [JObj [(''text'', JStr ''no picture'')]]"
  let ?r3 = "blocked_result"
  have pre: "req_method ?req = ''POST''" "GOOGLE_PROJECT_ID sample_env = Some ''my-project''"
    "GOOGLE_SERVICE_ACCOUNT_KEY sample_env = Some sample_key"
    "JSON_parse sample_rt sample_key = Inr ?keyData"
    by (simp_all add: sample_eval)
  have returned: "generateContent sample_lib sample_init image_model_params ?rq = Inr ?r1"
    "generateContent text_only_lib sample_init image_model_params ?rq = Inr ?r2"
    "generateContent blocked_lib sample_init image_model_params ?rq = Inr ?r3"
    by (simp_all add: sample_lib_def text_only_lib_def blocked_lib_def)
  have one: "sdk_calls (handler sample_rt sample_lib sample_env ?req) =
        [Construct sample_init, GetModel text_model_params, GetModel image_model_params,
         GenerateContent image_model_params ?rq]"
    using generateImage_outcome
      [where req = ?req and ev = sample_env and rt = sample_rt and lib = sample_lib
        and init = sample_init and pid = "''my-project''" and key = sample_key
        and keyData = ?keyData and prompt = "JStr ''P''" and rq = ?rq and fail = ?fail,
        THEN conjunct1]
    by (simp add: sample_eval nullish_def vertex_init_def)
  have found: "result (handler sample_rt sample_lib sample_env ?req) =
      Responded
        \<lparr>status = 200,
         headers = [(''Access-Control-Allow-Origin'', ''*''),
                   (''Access-Control-Allow-Methods'', ''POST, OPTIONS''),
                   (''Access-Control-Allow-Headers'', ''Content-Type'')],
         payload_sent = Json (JObj [(''base64Image'', JStr ''QUJD'')])\<rparr>"
    using generateImage_outcome
      [where req = ?req and ev = sample_env and rt = sample_rt and lib = sample_lib
        and init = sample_init and pid = "''my-project''" and key = sample_key
        and keyData = ?keyData and prompt = "JStr ''P''" and rq = ?rq and fail = ?fail,
        THEN conjunct2, THEN conjunct2, rule_format,
        of ?r1 "field ?r1 ''response''" "field (field ?r1 ''response'') ''candidates''"
          "first_elem (field (field ?r1 ''response'') ''candidates'')"
          "field (first_elem (field (field ?r1 ''response'') ''candidates'')) ''content''"
          "field (field (first_elem (field (field ?r1 ''response'') ''candidates''))
             ''content'') ''parts''"]
    by (simp add: sample_eval nullish_def vertex_init_def)
  have none: "result (handler sample_rt text_only_lib sample_env ?req) =
      Responded
        \<lparr>status = 500,
         headers = [(''Access-Control-Allow-Origin'', ''*''),
                   (''Access-Control-Allow-Methods'', ''POST, OPTIONS''),
                   (''Access-Control-Allow-Headers'', ''Content-Type'')],
         payload_sent =
           Json (JObj [(''error'',
                   JStr ''API Error: No image data returned from Imagen.'')])\<rparr>"
    using generateImage_outcome
      [where req = ?req and ev = sample_env and rt = sample_rt and lib = text_only_lib
        and init = sample_init and pid = "''my-project''" and key = sample_key
        and keyData = ?keyData and prompt = "JStr ''P''" and rq = ?rq and fail = ?fail,
        THEN conjunct2, THEN conjunct2, rule_format,
        of ?r2 "field ?r2 ''response''" "field (field ?r2 ''response'') ''candidates''"
          "first_elem (field (field ?r2 ''response'') ''candidates'')"
          "field (first_elem (field (field ?r2 ''response'') ''candidates'')) ''content''"
          "field (field (first_elem (field (field ?r2 ''response'') ''candidates''))
             ''content'') ''parts''"]
    by (simp add: sample_eval nullish_def vertex_init_def)
  have blocked: "result (handler sample_rt blocked_lib sample_env ?req) =
      Responded
        \<lparr>status = 500,
         headers = [(''Access-Control-Allow-Origin'', ''*''),
                   (''Access-Control-Allow-Methods'', ''POST, OPTIONS''),
                   (''Access-Control-Allow-Headers'', ''Content-Type'')],
         payload_sent =
           Json (JObj [(''error'',
                   JStr (''API Error: '' @
                         type_error_text sample_rt (NullishRead JUndefined ''find'')))])\<rparr>"
    using generateImage_outcome
      [where req = ?req and ev = sample_env and rt = sample_rt and lib = blocked_lib
        and init = sample_init and pid = "''my-project''" and key = sample_key
        and keyData = ?keyData and prompt = "JStr ''P''" and rq = ?rq and fail = ?fail,
        THEN conjunct2, THEN conjunct2, rule_format,
        of ?r3 "field ?r3 ''response''" "field (field ?r3 ''response'') ''candidates''"
          "first_elem (field (field ?r3 ''response'') ''candidates'')"
          "field (first_elem (field (field ?r3 ''response'') ''candidates'')) ''content''"
          "field (field (first_elem (field (field ?r3 ''response'') ''candidates''))
             ''content'') ''parts''"]
    by (simp add: sample_eval blocked_lib_def blocked_result_def nullish_def vertex_init_def)
  from pre returned one found none blocked show ?thesis
    by simp
qed

text \<open>
  The claim as stated fails on a result whose first candidate has no list of
  parts, as a blocked generation returns it: no inline-image part is present,
  the read of line 96 throws before the guard of lines 97-99, and the body
  carries the message of the TypeError, not the message of the guard.
\<close>

theorem missing_parts_counterexample:
  "generateContent blocked_lib sample_init image_model_params (image_request (JStr ''P'')) =
     Inr blocked_result \<and>
   field (field (first_elem (field (field blocked_result ''response'') ''candidates''))
            ''content'') ''parts'' = JUndefined \<and>
   result (handler sample_rt blocked_lib sample_env
             (post ''generateImage'' (JObj [(''prompt'', JStr ''P'')]))) =
     Responded
       \<lparr>status = 500,
        headers = [(''Access-Control-Allow-Origin'', ''*''),
                   (''Access-Control-Allow-Methods'', ''POST, OPTIONS''),
                   (''Access-Control-Allow-Headers'', ''Content-Type'')],
        payload_sent =
          Json (JObj [(''error'',
                  JStr (''API Error: '' @
                        type_error_text sample_rt (NullishRead JUndefined ''find'')))])\<rparr> \<and>
   result (handler sample_rt blocked_lib sample_env
             (post ''generateImage'' (JObj [(''prompt'', JStr ''P'')]))) \<noteq>
     Responded
       \<lparr>status = 500,
        headers = [(''Access-Control-Allow-Origin'', ''*''),
                   (''Access-Control-Allow-Methods'', ''POST, OPTIONS''),
                   (''Access-Control-Allow-Headers'', ''Content-Type'')],
        payload_sent =
          Json (JObj [(''error'',
                  JStr ''API Error: No image data returned from Imagen.'')])\<rparr>"
  by (simp add: handler_eval sample_eval blocked_lib_def blocked_result_def)

subsection \<open>C3: describeImage\<close>

text \<open>
  C3. A POST request that passes credential resolution, with
  \<^verbatim>\<open>step = "describeImage"\<close> and a payload holding \<^verbatim>\<open>systemPrompt\<close> and
  \<^verbatim>\<open>base64Data\<close>, makes exactly one provider call: \<^verbatim>\<open>generateContent\<close> of
  the text model with one message of role user and exactly two parts, the text
  \<^verbatim>\<open>systemPrompt\<close> and then inline data of MIME type image/png with the data
  \<^verbatim>\<open>base64Data\<close>; no system instruction is sent. When the provider returns a
  result whose first candidate has a first part, the response is status 200
  with the body \<^verbatim>\<open>{text}\<close>, the \<^verbatim>\<open>text\<close> of that part.
\<close>

theorem describeImage_contract:
  assumes "req_method req = ''POST''"
    and "GOOGLE_PROJECT_ID ev = Some pid" and "pid \<noteq> []"
    and "GOOGLE_SERVICE_ACCOUNT_KEY ev = Some key" and "key \<noteq> []"
    and "JSON_parse rt key = Inr keyData" and "\<not> nullish keyData"
    and "init = vertex_init (pid, field keyData ''private_key'', field keyData ''client_email'')"
    and "new_VertexAI lib init = None"
    and "getGenerativeModel lib init text_model_params = None"
    and "getGenerativeModel lib init image_model_params = None"
    and "\<not> nullish (body req)"
    and "field (body req) ''step'' = JStr ''describeImage''"
    and "\<not> nullish (field (body req) ''payload'')"
    and "systemPrompt = field (field (body req) ''payload'') ''systemPrompt''"
    and "base64Data = field (field (body req) ''payload'') ''base64Data''"
    and "rq = JObj [(''contents'',
                       JArr [JObj [(''role'', JStr ''user''),
                                   (''parts'',
                                      JArr [JObj [(''text'', systemPrompt)],
                                            JObj [(''inlineData'',
                                                     JObj [(''mimeType'', JStr ''image/png''),
                                                           (''data'', base64Data)])]])]])]"
  shows "sdk_calls (handler rt lib ev req) =
           [Construct init, GetModel text_model_params, GetModel image_model_params,
            GenerateContent text_model_params rq] \<and>
         text_model_params = JObj [(''model'', JStr ''gemini-2.5-flash-preview-09-2025'')] \<and>
         (\<forall>resp c cs p ps.
            generateContent lib init text_model_params rq = Inr resp \<and>
            field (field resp ''response'') ''candidates'' = JArr (c # cs) \<and>
            field (field c ''content'') ''parts'' = JArr (p # ps) \<and>
            \<not> nullish p \<longrightarrow>
            result (handler rt lib ev req) =
              Responded
                \<lparr>status = 200,
                 headers = [(''Access-Control-Allow-Origin'', ''*''),
                            (''Access-Control-Allow-Methods'', ''POST, OPTIONS''),
                            (''Access-Control-Allow-Headers'', ''Content-Type'')],
                 payload_sent = Json (JObj [(''text'', field p ''text'')])\<rparr>)"
proof -
  have rq: "rq = describe_request (field (field (body req) ''payload'') ''systemPrompt'')
                   (field (field (body req) ''payload'') ''base64Data'')"
    using assms(15-17) by (simp add: describe_request_def)
  have h: "handler rt lib ev req =
      \<lparr>result = Responded
         (case bind_e (generateContent lib init text_model_params rq)
                 (\<lambda>resp. bind_e (first_text rt resp)
                    (\<lambda>t. Inr (respond_json cors_headers 200 (JObj [(''text'', t)])))) of
            Inr r \<Rightarrow> r | Inl e \<Rightarrow> catch_api_error cors_headers e),
       sdk_calls = [Construct init, GetModel text_model_params, GetModel image_model_params,
                    GenerateContent text_model_params rq],
       console =
         (case bind_e (generateContent lib init text_model_params rq)
                 (\<lambda>resp. bind_e (first_text rt resp)
                    (\<lambda>t. Inr (respond_json cors_headers 200 (JObj [(''text'', t)])))) of
            Inr r \<Rightarrow> [] | Inl e \<Rightarrow> [e])\<rparr>"
    using handler_valid_post [OF assms(1-12) refl] assms(13)
      case_describeImage_run [OF assms(14), of rt lib cors_headers init] rq
    by simp
  show ?thesis
  proof (intro conjI allI impI)
    show "sdk_calls (handler rt lib ev req) =
        [Construct init, GetModel text_model_params, GetModel image_model_params,
         GenerateContent text_model_params rq]"
      by (simp add: h)
  next
    show "text_model_params = JObj [(''model'', JStr ''gemini-2.5-flash-preview-09-2025'')]"
      by (simp add: text_model_params_def)
  next
    fix resp c cs p ps
    assume a: "generateContent lib init text_model_params rq = Inr resp \<and>
        field (field resp ''response'') ''candidates'' = JArr (c # cs) \<and>
        field (field c ''content'') ''parts'' = JArr (p # ps) \<and> \<not> nullish p"
    then have "first_text rt resp = Inr (field p ''text'')"
      by (intro first_text_shape [of resp c cs p ps]) (auto simp: nullish_def)
    with a show "result (handler rt lib ev req) =
        Responded
          \<lparr>status = 200,
           headers = [(''Access-Control-Allow-Origin'', ''*''),
                      (''Access-Control-Allow-Methods'', ''POST, OPTIONS''),
                      (''Access-Control-Allow-Headers'', ''Content-Type'')],
           payload_sent = Json (JObj [(''text'', field p ''text'')])\<rparr>"
      by (simp add: h bind_e_Inr respond_json_def cors_headers_eq)
  qed
qed


theorem describeImage_contract_witness:
  "req_method (post ''describeImage''
                 (JObj [(''systemPrompt'', JStr ''Describe''), (''base64Data'', JStr ''QUJD'')])) =
     ''POST'' \<and>
   GOOGLE_PROJECT_ID sample_env = Some ''my-project'' \<and>
   GOOGLE_SERVICE_ACCOUNT_KEY sample_env = Some sample_key \<and>
   JSON_parse sample_rt sample_key =
     Inr (JObj [(''private_key'', JStr ''K''), (''client_email'', JStr ''E'')]) \<and>
   sdk_calls (handler sample_rt sample_lib sample_env
                (post ''describeImage''
                   (JObj [(''systemPrompt'', JStr ''Describe''),
                          (''base64Data'', JStr ''QUJD'')]))) =
     [Construct sample_init, GetModel text_model_params, GetModel image_model_params,
      GenerateContent text_model_params
        (JObj [(''contents'',
                  JArr [JObj [(''role'', JStr ''user''),
                              (''parts'',
                                 JArr [JObj [(''text'', JStr ''Describe'')],
                                       JObj [(''inlineData'',
                                                JObj [(''mimeType'', JStr ''image/png''),
                                                      (''data'', JStr ''QUJD'')])]])]])])] \<and>
   generateContent sample_lib sample_init text_model_params
     (JObj [(''contents'',
               JArr [JObj [(''role'', JStr ''user''),
                           (''parts'',
                              JArr [JObj [(''text'', JStr ''Describe'')],
                                    JObj [(''inlineData'',
                                             JObj [(''mimeType'', JStr ''image/png''),
                                                   (''data'', JStr ''QUJD'')])]])]])]) =
     Inr (result_with_parts [JObj [(''text'', JStr ''hello'')]]) \<and>
   result (handler sample_rt sample_lib sample_env
             (post ''describeImage''
                (JObj [(''systemPrompt'', JStr ''Describe''),
                       (''base64Data'', JStr ''QUJD'')]))) =
     Responded
       \<lparr>status = 200,
        headers = [(''Access-Control-Allow-Origin'', ''*''),
                   (''Access-Control-Allow-Methods'', ''POST, OPTIONS''),
                   (''Access-Control-Allow-Headers'', ''Content-Type'')],
        payload_sent = Json (JObj [(''text'', JStr ''hello'')])\<rparr>"
  using describeImage_contract
    [where req = "post ''describeImage''
                    (JObj [(''systemPrompt'', JStr ''Describe''),
                           (''base64Data'', JStr ''QUJD'')])"
      and ev = sample_env and rt = sample_rt and lib = sample_lib and init = sample_init
      and pid = "''my-project''" and key = sample_key
      and keyData = "JObj [(''private_key'', JStr ''K''), (''client_email'', JStr ''E'')]"
      and systemPrompt = "JStr ''Describe''" and base64Data = "JStr ''QUJD''", OF _ _ _ _ _ _ _ _ _ _ _ _ _ _ _ _ refl]
  by (simp add: sample_eval nullish_def vertex_init_def text_model_params_def
      image_model_params_def)

subsection \<open>C4: credential resolution\<close>

lemma read_key_throws:
  "JSON_parse rt key = Inl e \<Longrightarrow> read_key rt key = Inl e"
  by (simp add: read_key_def bind_e_Inl)

lemma read_key_nullish:
  "JSON_parse rt key = Inr keyData \<Longrightarrow> nullish keyData \<Longrightarrow>
   read_key rt key = Inl (type_error rt (NullishRead keyData ''private_key''))"
  by (simp add: read_key_def bind_e_Inr bind_e_Inl get_prop_nullish)

lemma handler_calls_after_resolution:
  assumes "req_method req = ''POST''"
    and "resolve_credentials rt cors_headers ev = Inr creds"
  shows "\<exists>cs. sdk_calls (handler rt lib ev req) = Construct (vertex_init creds) # cs"
  using assms
  by (simp add: handler_def Let_def split: option.splits sum.splits prod.splits)

lemma resolve_credentials_Inl:
  assumes "resolve_credentials rt hs ev = Inl r"
  shows "r = respond_json hs 500 (error_envelope missing_credentials) \<or>
         r = respond_json hs 500 (error_envelope invalid_key_format)"
  using assms
  by (auto simp: resolve_credentials_def split: option.splits if_splits sum.splits)

text \<open>
  C4, as the handler has it. For a POST request: when GOOGLE_PROJECT_ID or
  GOOGLE_SERVICE_ACCOUNT_KEY is unset or empty, the response is status 500 with
  \<^verbatim>\<open>{error: "Server configuration error. Missing API credentials."}\<close>;
  otherwise, when \<^verbatim>\<open>JSON.parse\<close> of the key throws or yields \<^verbatim>\<open>null\<close>, the
  response is status 500 with
  \<^verbatim>\<open>{error: "Server configuration error. Invalid service account key format."}\<close>.
  Both are sent whatever the body is, and before any call of the library. Any
  other parsed key is accepted without a check of its structure: the client is
  built with the \<^verbatim>\<open>private_key\<close> and \<^verbatim>\<open>client_email\<close> read from it,
  \<^verbatim>\<open>undefined\<close> where the key has none.
\<close>

theorem credential_resolution:
  assumes "req_method req = ''POST''"
  shows "(GOOGLE_PROJECT_ID ev = None \<or> GOOGLE_PROJECT_ID ev = Some [] \<or>
          GOOGLE_SERVICE_ACCOUNT_KEY ev = None \<or> GOOGLE_SERVICE_ACCOUNT_KEY ev = Some [] \<longrightarrow>
          handler rt lib ev req =
            \<lparr>result = Responded
               \<lparr>status = 500,
                headers = [(''Access-Control-Allow-Origin'', ''*''),
                           (''Access-Control-Allow-Methods'', ''POST, OPTIONS''),
                           (''Access-Control-Allow-Headers'', ''Content-Type'')],
                payload_sent =
                  Json (JObj [(''error'',
                    JStr ''Server configuration error. Missing API credentials.'')])\<rparr>,
             sdk_calls = [], console = []\<rparr>) \<and>
         (\<forall>pid key.
            GOOGLE_PROJECT_ID ev = Some pid \<and> pid \<noteq> [] \<and>
            GOOGLE_SERVICE_ACCOUNT_KEY ev = Some key \<and> key \<noteq> [] \<and>
            ((\<exists>e. JSON_parse rt key = Inl e) \<or> JSON_parse rt key = Inr JNull \<or>
             JSON_parse rt key = Inr JUndefined) \<longrightarrow>
            handler rt lib ev req =
              \<lparr>result = Responded
                 \<lparr>status = 500,
                  headers = [(''Access-Control-Allow-Origin'', ''*''),
                             (''Access-Control-Allow-Methods'', ''POST, OPTIONS''),
                             (''Access-Control-Allow-Headers'', ''Content-Type'')],
                  payload_sent =
                    Json (JObj [(''error'',
                      JStr ''Server configuration error. Invalid service account key format.'')])\<rparr>,
               sdk_calls = [], console = []\<rparr>) \<and>
         (\<forall>pid key keyData.
            GOOGLE_PROJECT_ID ev = Some pid \<and> pid \<noteq> [] \<and>
            GOOGLE_SERVICE_ACCOUNT_KEY ev = Some key \<and> key \<noteq> [] \<and>
            JSON_parse rt key = Inr keyData \<and> keyData \<noteq> JNull \<and> keyData \<noteq> JUndefined \<longrightarrow>
            (\<exists>cs. sdk_calls (handler rt lib ev req) =
                    Construct
                      (JObj [(''project'', JStr pid),
                             (''location'', JStr ''us-central1''),
                             (''credentials'',
                                JObj [(''private_key'', field keyData ''private_key''),
                                      (''client_email'', field keyData ''client_email'')])])
                    # cs))"
proof (intro conjI allI impI)
  assume "GOOGLE_PROJECT_ID ev = None \<or> GOOGLE_PROJECT_ID ev = Some [] \<or>
          GOOGLE_SERVICE_ACCOUNT_KEY ev = None \<or> GOOGLE_SERVICE_ACCOUNT_KEY ev = Some []"
  then have "resolve_credentials rt cors_headers ev =
      Inl (respond_json cors_headers 500 (error_envelope missing_credentials))"
    by (auto simp: resolve_credentials_def split: option.splits)
  with assms show "handler rt lib ev req =
            \<lparr>result = Responded
               \<lparr>status = 500,
                headers = [(''Access-Control-Allow-Origin'', ''*''),
                           (''Access-Control-Allow-Methods'', ''POST, OPTIONS''),
                           (''Access-Control-Allow-Headers'', ''Content-Type'')],
                payload_sent =
                  Json (JObj [(''error'',
                    JStr ''Server configuration error. Missing API credentials.'')])\<rparr>,
             sdk_calls = [], console = []\<rparr>"
    by (simp add: handler_def Let_def finish_def respond_json_def error_envelope_def
        missing_credentials_def cors_headers_eq)
next
  fix pid key
  assume a: "GOOGLE_PROJECT_ID ev = Some pid \<and> pid \<noteq> [] \<and>
            GOOGLE_SERVICE_ACCOUNT_KEY ev = Some key \<and> key \<noteq> [] \<and>
            ((\<exists>e. JSON_parse rt key = Inl e) \<or> JSON_parse rt key = Inr JNull \<or>
             JSON_parse rt key = Inr JUndefined)"
  then have "\<exists>e. read_key rt key = Inl e"
    by (auto simp: nullish_def dest: read_key_throws read_key_nullish)
  with a have "resolve_credentials rt cors_headers ev =
      Inl (respond_json cors_headers 500 (error_envelope invalid_key_format))"
    by (auto simp: resolve_credentials_def)
  with assms show "handler rt lib ev req =
              \<lparr>result = Responded
                 \<lparr>status = 500,
                  headers = [(''Access-Control-Allow-Origin'', ''*''),
                             (''Access-Control-Allow-Methods'', ''POST, OPTIONS''),
                             (''Access-Control-Allow-Headers'', ''Content-Type'')],
                  payload_sent =
                    Json (JObj [(''error'',
                      JStr ''Server configuration error. Invalid service account key format.'')])\<rparr>,
               sdk_calls = [], console = []\<rparr>"
    by (simp add: handler_def Let_def finish_def respond_json_def error_envelope_def
        invalid_key_format_def cors_headers_eq)
next
  fix pid key keyData
  assume a: "GOOGLE_PROJECT_ID ev = Some pid \<and> pid \<noteq> [] \<and>
            GOOGLE_SERVICE_ACCOUNT_KEY ev = Some key \<and> key \<noteq> [] \<and>
            JSON_parse rt key = Inr keyData \<and> keyData \<noteq> JNull \<and> keyData \<noteq> JUndefined"
  then have "resolve_credentials rt cors_headers ev =
      Inr (pid, field keyData ''private_key'', field keyData ''client_email'')"
    by (intro resolve_credentials_valid) (auto simp: nullish_def)
  from handler_calls_after_resolution [OF assms this]
  show "\<exists>cs. sdk_calls (handler rt lib ev req) =
                    Construct
                      (JObj [(''project'', JStr pid),
                             (''location'', JStr ''us-central1''),
                             (''credentials'',
                                JObj [(''private_key'', field keyData ''private_key''),
                                      (''client_email'', field keyData ''client_email'')])])
                    # cs"
    by (simp add: vertex_init_def)
qed

theorem credential_resolution_witness:
  "req_method (post ''generateText'' (JObj [])) = ''POST'' \<and>
   handler sample_rt sample_lib
     \<lparr>GOOGLE_PROJECT_ID = None, GOOGLE_SERVICE_ACCOUNT_KEY = Some sample_key\<rparr>
     (post ''generateText'' (JObj [])) =
     \<lparr>result = Responded
        \<lparr>status = 500,
         headers = [(''Access-Control-Allow-Origin'', ''*''),
                    (''Access-Control-Allow-Methods'', ''POST, OPTIONS''),
                    (''Access-Control-Allow-Headers'', ''Content-Type'')],
         payload_sent =
           Json (JObj [(''error'',
             JStr ''Server configuration error. Missing API credentials.'')])\<rparr>,
      sdk_calls = [], console = []\<rparr> \<and>
   JSON_parse sample_rt ''not json'' = Inl (Thrown ''SyntaxError'' ''Unexpected token'') \<and>
   handler sample_rt sample_lib
     \<lparr>GOOGLE_PROJECT_ID = Some ''my-project'', GOOGLE_SERVICE_ACCOUNT_KEY = Some ''not json''\<rparr>
     (post ''generateText'' (JObj [])) =
     \<lparr>result = Responded
        \<lparr>status = 500,
         headers = [(''Access-Control-Allow-Origin'', ''*''),
                    (''Access-Control-Allow-Methods'', ''POST, OPTIONS''),
                    (''Access-Control-Allow-Headers'', ''Content-Type'')],
         payload_sent =
           Json (JObj [(''error'',
             JStr ''Server configuration error. Invalid service account key format.'')])\<rparr>,
      sdk_calls = [], console = []\<rparr> \<and>
   JSON_parse sample_rt sample_key =
     Inr (JObj [(''private_key'', JStr ''K''), (''client_email'', JStr ''E'')]) \<and>
   hd (sdk_calls (handler sample_rt sample_lib sample_env (post ''generateText'' (JObj [])))) =
     Construct sample_init"
proof -
  let ?req = "post ''generateText'' (JObj [])"
  let ?unset = "\<lparr>GOOGLE_PROJECT_ID = None, GOOGLE_SERVICE_ACCOUNT_KEY = Some sample_key\<rparr>"
  let ?broken = "\<lparr>GOOGLE_PROJECT_ID = Some ''my-project'',
                   GOOGLE_SERVICE_ACCOUNT_KEY = Some ''not json''\<rparr>"
  let ?keyData = "JObj [(''private_key'', JStr ''K''), (''client_email'', JStr ''E'')]"
  have post: "req_method ?req = ''POST''"
    by (simp add: post_def)
  have parse: "JSON_parse sample_rt ''not json'' = Inl (Thrown ''SyntaxError'' ''Unexpected token'')"
    "JSON_parse sample_rt sample_key = Inr ?keyData"
    by (simp_all add: sample_rt_def sample_key_def)
  note missing = credential_resolution [OF post, of ?unset sample_rt sample_lib,
      THEN conjunct1, rule_format]
  note invalid = credential_resolution [OF post, of ?broken sample_rt sample_lib,
      THEN conjunct2, THEN conjunct1, rule_format, of "''my-project''" "''not json''"]
  note valid = credential_resolution [OF post, of sample_env sample_rt sample_lib,
      THEN conjunct2, THEN conjunct2, rule_format, of "''my-project''" sample_key ?keyData]
  have goes_on: "hd (sdk_calls (handler sample_rt sample_lib sample_env ?req)) =
      Construct sample_init"
    using valid parse by (auto simp: sample_env_def sample_key_def sample_init_def)
  from post parse missing invalid goes_on show ?thesis
    by simp
qed

text \<open>
  The claim as stated fails on a key that is set and is not a service-account
  key. The key \<^verbatim>\<open>{}\<close> parses, holds neither field, and is accepted: the
  request reaches the dispatch (here an unknown step, status 400) with a client
  built from undefined credentials. The empty key is set and is not JSON, and
  is answered with the message for missing credentials.
\<close>

theorem key_structure_counterexample:
  "JSON_parse sample_rt ''{}'' = Inr (JObj []) \<and>
   handler sample_rt sample_lib
     \<lparr>GOOGLE_PROJECT_ID = Some ''my-project'', GOOGLE_SERVICE_ACCOUNT_KEY = Some ''{}''\<rparr>
     (post ''bogus'' JNull) =
     \<lparr>result = Responded
        \<lparr>status = 400,
         headers = [(''Access-Control-Allow-Origin'', ''*''),
                    (''Access-Control-Allow-Methods'', ''POST, OPTIONS''),
                    (''Access-Control-Allow-Headers'', ''Content-Type'')],
         payload_sent = Json (JObj [(''error'', JStr ''Invalid step provided'')])\<rparr>,
      sdk_calls =
        [Construct
           (JObj [(''project'', JStr ''my-project''),
                  (''location'', JStr ''us-central1''),
                  (''credentials'',
                     JObj [(''private_key'', JUndefined), (''client_email'', JUndefined)])]),
         GetModel text_model_params, GetModel image_model_params],
      console = []\<rparr> \<and>
   JSON_parse sample_rt [] = Inl (Thrown ''SyntaxError'' ''Unexpected token'') \<and>
   handler sample_rt sample_lib
     \<lparr>GOOGLE_PROJECT_ID = Some ''my-project'', GOOGLE_SERVICE_ACCOUNT_KEY = Some []\<rparr>
     (post ''bogus'' JNull) =
     \<lparr>result = Responded
        \<lparr>status = 500,
         headers = [(''Access-Control-Allow-Origin'', ''*''),
                    (''Access-Control-Allow-Methods'', ''POST, OPTIONS''),
                    (''Access-Control-Allow-Headers'', ''Content-Type'')],
         payload_sent =
           Json (JObj [(''error'',
             JStr ''Server configuration error. Missing API credentials.'')])\<rparr>,
      sdk_calls = [], console = []\<rparr>"
  by (simp add: handler_eval sample_eval)

subsection \<open>C5: failures outside the try blocks\<close>

text \<open>
  C5. The claim is that every failure ends in a JSON error envelope. A POST
  request without a body, under valid credentials, throws at the destructuring
  of \<^verbatim>\<open>req.body\<close> (line 56), which stands before the \<^verbatim>\<open>try\<close> of line 58:
  the TypeError leaves the handler and no response is sent. The same failure
  one level down, a missing payload (lines 76, 87, 107), is inside the
  \<^verbatim>\<open>try\<close> and ends in status 500 with an error envelope.
\<close>

theorem missing_body_escapes:
  "handler sample_rt sample_lib sample_env \<lparr>req_method = ''POST'', body = JUndefined\<rparr> =
     \<lparr>result = Unhandled (type_error sample_rt (NullishRead JUndefined ''step'')),
      sdk_calls = [Construct sample_init], console = []\<rparr> \<and>
   handler sample_rt sample_lib sample_env (post ''generateText'' JUndefined) =
     \<lparr>result = Responded
        \<lparr>status = 500,
         headers = [(''Access-Control-Allow-Origin'', ''*''),
                    (''Access-Control-Allow-Methods'', ''POST, OPTIONS''),
                    (''Access-Control-Allow-Headers'', ''Content-Type'')],
         payload_sent =
           Json (JObj [(''error'',
                   JStr (''API Error: '' @
                         message (type_error sample_rt
                                    (NullishRead JUndefined ''systemPrompt''))))])\<rparr>,
      sdk_calls = [Construct sample_init, GetModel text_model_params,
                   GetModel image_model_params],
      console = [type_error sample_rt (NullishRead JUndefined ''systemPrompt'')]\<rparr>"
  by (simp add: handler_eval sample_eval)

subsection \<open>C6: the credentials do not reach the response\<close>

lemma try_body_same_library:
  assumes "\<forall>m. getGenerativeModel lib init1 m = getGenerativeModel lib init2 m"
    and "\<forall>m rq. generateContent lib init1 m rq = generateContent lib init2 m rq"
  shows "try_body rt lib hs init1 step p = try_body rt lib hs init2 step p"
proof -
  have g: "call_getGenerativeModel lib init1 = call_getGenerativeModel lib init2"
    using assms(1) by (simp add: call_getGenerativeModel_def fun_eq_iff)
  have c: "call_generateContent lib init1 = call_generateContent lib init2"
    using assms(2) by (simp add: call_generateContent_def fun_eq_iff)
  show ?thesis
    by (simp add: try_body_def case_generateText_def case_generateImage_def
        case_describeImage_def g c)
qed

lemma handler_result_after_resolution:
  assumes "req_method req = ''POST''"
    and "resolve_credentials rt cors_headers ev = Inr creds"
  shows "result (handler rt lib ev req) =
           (case new_VertexAI lib (vertex_init creds) of
              Some e \<Rightarrow> Unhandled e
            | None \<Rightarrow>
                (case get_prop rt (body req) ''step'' of
                   Inl e \<Rightarrow> Unhandled e
                 | Inr step \<Rightarrow>
                     (case snd (try_body rt lib cors_headers (vertex_init creds) step
                                  (field (body req) ''payload'')) of
                        Inr r \<Rightarrow> Responded r
                      | Inl e \<Rightarrow> Responded (catch_api_error cors_headers e))))"
    and "console (handler rt lib ev req) =
           (case new_VertexAI lib (vertex_init creds) of
              Some e \<Rightarrow> []
            | None \<Rightarrow>
                (case get_prop rt (body req) ''step'' of
                   Inl e \<Rightarrow> []
                 | Inr step \<Rightarrow>
                     (case snd (try_body rt lib cors_headers (vertex_init creds) step
                                  (field (body req) ''payload'')) of
                        Inr r \<Rightarrow> []
                      | Inl e \<Rightarrow> [e])))"
  using assms
  by (simp_all add: handler_def Let_def split: option.splits sum.splits prod.splits)

lemma handler_without_library:
  assumes "sdk_calls (handler rt lib ev req) = []"
  shows "(\<exists>r. resolve_credentials rt cors_headers ev = Inl r \<and> req_method req = ''POST'' \<and>
              handler rt lib ev req = finish r) \<or>
         (req_method req = ''OPTIONS'' \<and> handler rt lib ev req = finish (respond_end cors_headers 200)) \<or>
         (req_method req \<noteq> ''OPTIONS'' \<and> req_method req \<noteq> ''POST'' \<and>
          handler rt lib ev req =
            finish (respond_json cors_headers 405 (error_envelope ''Method Not Allowed'')))"
  using assms
  by (auto simp: handler_def Let_def finish_def split: if_splits option.splits sum.splits prod.splits)

text \<open>
  C6, as the handler has it. The handler writes no credential value into a
  response by itself; the project identifier, the private key and the client
  email reach the response only through the library. Two environments with
  valid credentials, however different, give the same response (and the same
  console output) to the same request whenever the library behaves alike on
  the two clients. A response sent without any call of the library is one of
  four fixed envelopes. And what the provider throws is passed on unfiltered:
  the message of its error follows \<^verbatim>\<open>API Error: \<close> in the body of the 500
  response, whatever it holds.
\<close>

theorem credentials_only_through_library:
  "(\<forall>pid1 key1 keyData1 pid2 key2 keyData2 init1 init2.
      GOOGLE_PROJECT_ID ev1 = Some pid1 \<and> pid1 \<noteq> [] \<and>
      GOOGLE_SERVICE_ACCOUNT_KEY ev1 = Some key1 \<and> key1 \<noteq> [] \<and>
      JSON_parse rt key1 = Inr keyData1 \<and> \<not> nullish keyData1 \<and>
      GOOGLE_PROJECT_ID ev2 = Some pid2 \<and> pid2 \<noteq> [] \<and>
      GOOGLE_SERVICE_ACCOUNT_KEY ev2 = Some key2 \<and> key2 \<noteq> [] \<and>
      JSON_parse rt key2 = Inr keyData2 \<and> \<not> nullish keyData2 \<and>
      init1 = vertex_init (pid1, field keyData1 ''private_key'', field keyData1 ''client_email'') \<and>
      init2 = vertex_init (pid2, field keyData2 ''private_key'', field keyData2 ''client_email'') \<and>
      new_VertexAI lib init1 = new_VertexAI lib init2 \<and>
      (\<forall>m. getGenerativeModel lib init1 m = getGenerativeModel lib init2 m) \<and>
      (\<forall>m rq. generateContent lib init1 m rq = generateContent lib init2 m rq) \<longrightarrow>
      result (handler rt lib ev1 req) = result (handler rt lib ev2 req) \<and>
      console (handler rt lib ev1 req) = console (handler rt lib ev2 req)) \<and>
   (sdk_calls (handler rt lib ev1 req) = [] \<longrightarrow>
      (\<exists>n b. result (handler rt lib ev1 req) =
                 Responded
                   \<lparr>status = n,
                    headers = [(''Access-Control-Allow-Origin'', ''*''),
                               (''Access-Control-Allow-Methods'', ''POST, OPTIONS''),
                               (''Access-Control-Allow-Headers'', ''Content-Type'')],
                    payload_sent = b\<rparr> \<and>
              (n, b) \<in> {(200, NoBody),
                         (405, Json (JObj [(''error'', JStr ''Method Not Allowed'')])),
                         (500, Json (JObj [(''error'',
                            JStr ''Server configuration error. Missing API credentials.'')])),
                         (500, Json (JObj [(''error'',
                            JStr ''Server configuration error. Invalid service account key format.'')]))})) \<and>
   (\<forall>pid key keyData init m rq e.
      req_method req = ''POST'' \<and>
      GOOGLE_PROJECT_ID ev1 = Some pid \<and> pid \<noteq> [] \<and>
      GOOGLE_SERVICE_ACCOUNT_KEY ev1 = Some key \<and> key \<noteq> [] \<and>
      JSON_parse rt key = Inr keyData \<and> \<not> nullish keyData \<and>
      init = vertex_init (pid, field keyData ''private_key'', field keyData ''client_email'') \<and>
      new_VertexAI lib init = None \<and>
      getGenerativeModel lib init text_model_params = None \<and>
      getGenerativeModel lib init image_model_params = None \<and>
      \<not> nullish (body req) \<and>
      sdk_calls (handler rt lib ev1 req) =
        [Construct init, GetModel text_model_params, GetModel image_model_params,
         GenerateContent m rq] \<and>
      generateContent lib init m rq = Inl e \<longrightarrow>
      result (handler rt lib ev1 req) =
        Responded
          \<lparr>status = 500,
           headers = [(''Access-Control-Allow-Origin'', ''*''),
                    (''Access-Control-Allow-Methods'', ''POST, OPTIONS''),
                    (''Access-Control-Allow-Headers'', ''Content-Type'')],
           payload_sent = Json (JObj [(''error'', JStr (''API Error: '' @ message e))])\<rparr>)"
proof (intro conjI allI impI)
  fix pid1 key1 keyData1 pid2 key2 keyData2 init1 init2
  assume a: "GOOGLE_PROJECT_ID ev1 = Some pid1 \<and> pid1 \<noteq> [] \<and>
      GOOGLE_SERVICE_ACCOUNT_KEY ev1 = Some key1 \<and> key1 \<noteq> [] \<and>
      JSON_parse rt key1 = Inr keyData1 \<and> \<not> nullish keyData1 \<and>
      GOOGLE_PROJECT_ID ev2 = Some pid2 \<and> pid2 \<noteq> [] \<and>
      GOOGLE_SERVICE_ACCOUNT_KEY ev2 = Some key2 \<and> key2 \<noteq> [] \<and>
      JSON_parse rt key2 = Inr keyData2 \<and> \<not> nullish keyData2 \<and>
      init1 = vertex_init (pid1, field keyData1 ''private_key'', field keyData1 ''client_email'') \<and>
      init2 = vertex_init (pid2, field keyData2 ''private_key'', field keyData2 ''client_email'') \<and>
      new_VertexAI lib init1 = new_VertexAI lib init2 \<and>
      (\<forall>m. getGenerativeModel lib init1 m = getGenerativeModel lib init2 m) \<and>
      (\<forall>m rq. generateContent lib init1 m rq = generateContent lib init2 m rq)"
  have r1: "resolve_credentials rt cors_headers ev1 =
      Inr (pid1, field keyData1 ''private_key'', field keyData1 ''client_email'')"
    using a resolve_credentials_valid [where ev = ev1 and pid = pid1 and key = key1
        and keyData = keyData1 and rt = rt and hs = cors_headers]
    by simp
  have r2: "resolve_credentials rt cors_headers ev2 =
      Inr (pid2, field keyData2 ''private_key'', field keyData2 ''client_email'')"
    using a resolve_credentials_valid [where ev = ev2 and pid = pid2 and key = key2
        and keyData = keyData2 and rt = rt and hs = cors_headers]
    by simp
  have g: "\<forall>m. getGenerativeModel lib init1 m = getGenerativeModel lib init2 m"
    and c: "\<forall>m rq. generateContent lib init1 m rq = generateContent lib init2 m rq"
    and n: "new_VertexAI lib init1 = new_VertexAI lib init2"
    and i1: "vertex_init (pid1, field keyData1 ''private_key'', field keyData1 ''client_email'') = init1"
    and i2: "vertex_init (pid2, field keyData2 ''private_key'', field keyData2 ''client_email'') = init2"
    using a by blast+
  have same: "try_body rt lib cors_headers init1 = try_body rt lib cors_headers init2"
    by (intro ext try_body_same_library [OF g c])
  show "result (handler rt lib ev1 req) = result (handler rt lib ev2 req)"
  proof (cases "req_method req = ''POST''")
    case True
    show ?thesis
      unfolding handler_result_after_resolution(1) [OF True r1]
        handler_result_after_resolution(1) [OF True r2] i1 i2 n same
      by (rule refl)
  next
    case False
    then show ?thesis by (simp add: handler_def Let_def)
  qed
  show "console (handler rt lib ev1 req) = console (handler rt lib ev2 req)"
  proof (cases "req_method req = ''POST''")
    case True
    show ?thesis
      unfolding handler_result_after_resolution(2) [OF True r1]
        handler_result_after_resolution(2) [OF True r2] i1 i2 n same
      by (rule refl)
  next
    case False
    then show ?thesis by (simp add: handler_def Let_def)
  qed
next
  assume "sdk_calls (handler rt lib ev1 req) = []"
  from handler_without_library [OF this]
  show "\<exists>n b. result (handler rt lib ev1 req) =
                 Responded
                   \<lparr>status = n,
                    headers = [(''Access-Control-Allow-Origin'', ''*''),
                               (''Access-Control-Allow-Methods'', ''POST, OPTIONS''),
                               (''Access-Control-Allow-Headers'', ''Content-Type'')],
                    payload_sent = b\<rparr> \<and>
              (n, b) \<in> {(200, NoBody),
                         (405, Json (JObj [(''error'', JStr ''Method Not Allowed'')])),
                         (500, Json (JObj [(''error'',
                            JStr ''Server configuration error. Missing API credentials.'')])),
                         (500, Json (JObj [(''error'',
                            JStr ''Server configuration error. Invalid service account key format.'')]))}"
    by (auto simp: finish_def respond_end_def respond_json_def error_envelope_def
        cors_headers_eq missing_credentials_def invalid_key_format_def
        dest!: resolve_credentials_Inl)
next
  fix pid key keyData init m rq e
  assume a: "req_method req = ''POST'' \<and>
      GOOGLE_PROJECT_ID ev1 = Some pid \<and> pid \<noteq> [] \<and>
      GOOGLE_SERVICE_ACCOUNT_KEY ev1 = Some key \<and> key \<noteq> [] \<and>
      JSON_parse rt key = Inr keyData \<and> \<not> nullish keyData \<and>
      init = vertex_init (pid, field keyData ''private_key'', field keyData ''client_email'') \<and>
      new_VertexAI lib init = None \<and>
      getGenerativeModel lib init text_model_params = None \<and>
      getGenerativeModel lib init image_model_params = None \<and>
      \<not> nullish (body req) \<and>
      sdk_calls (handler rt lib ev1 req) =
        [Construct init, GetModel text_model_params, GetModel image_model_params,
         GenerateContent m rq] \<and>
      generateContent lib init m rq = Inl e"
  then have "result (handler rt lib ev1 req) =
        Responded
          \<lparr>status = 500,
           headers = [(''Access-Control-Allow-Origin'', ''*''),
                    (''Access-Control-Allow-Methods'', ''POST, OPTIONS''),
                    (''Access-Control-Allow-Headers'', ''Content-Type'')],
           payload_sent = Json (JObj [(''error'', JStr (''API Error: '' @ message e))])\<rparr> \<and>
      console (handler rt lib ev1 req) = [e]"
    by (intro provider_failure_mapping [where pid = pid and key = key and keyData = keyData
          and init = init and m = m and rq = rq]) blast+
  then show "result (handler rt lib ev1 req) =
        Responded
          \<lparr>status = 500,
           headers = [(''Access-Control-Allow-Origin'', ''*''),
                    (''Access-Control-Allow-Methods'', ''POST, OPTIONS''),
                    (''Access-Control-Allow-Headers'', ''Content-Type'')],
           payload_sent = Json (JObj [(''error'', JStr (''API Error: '' @ message e))])\<rparr>"
    by (rule conjunct1)
qed

theorem credentials_only_through_library_witness:
  "GOOGLE_PROJECT_ID sample_env = Some ''my-project'' \<and>
   GOOGLE_SERVICE_ACCOUNT_KEY sample_env = Some sample_key \<and>
   JSON_parse sample_rt sample_key =
     Inr (JObj [(''private_key'', JStr ''K''), (''client_email'', JStr ''E'')]) \<and>
   JSON_parse sample_rt ''{}'' = Inr (JObj []) \<and>
   result (handler sample_rt sample_lib sample_env
             (post ''generateText''
                (JObj [(''systemPrompt'', JStr ''S''), (''userQuery'', JStr ''Q'')]))) =
   result (handler sample_rt sample_lib
             \<lparr>GOOGLE_PROJECT_ID = Some ''other-project'',
              GOOGLE_SERVICE_ACCOUNT_KEY = Some ''{}''\<rparr>
             (post ''generateText''
                (JObj [(''systemPrompt'', JStr ''S''), (''userQuery'', JStr ''Q'')]))) \<and>
   sdk_calls (handler sample_rt sample_lib
                \<lparr>GOOGLE_PROJECT_ID = Some ''my-project'', GOOGLE_SERVICE_ACCOUNT_KEY = None\<rparr>
                (post ''generateText''
                   (JObj [(''systemPrompt'', JStr ''S''), (''userQuery'', JStr ''Q'')]))) = [] \<and>
   result (handler sample_rt sample_lib
             \<lparr>GOOGLE_PROJECT_ID = Some ''my-project'', GOOGLE_SERVICE_ACCOUNT_KEY = None\<rparr>
             (post ''generateText''
                (JObj [(''systemPrompt'', JStr ''S''), (''userQuery'', JStr ''Q'')]))) =
     Responded
       \<lparr>status = 500,
        headers = [(''Access-Control-Allow-Origin'', ''*''),
                   (''Access-Control-Allow-Methods'', ''POST, OPTIONS''),
                   (''Access-Control-Allow-Headers'', ''Content-Type'')],
        payload_sent =
          Json (JObj [(''error'',
            JStr ''Server configuration error. Missing API credentials.'')])\<rparr> \<and>
   sdk_calls (handler sample_rt failing_lib sample_env
                (post ''generateText''
                   (JObj [(''systemPrompt'', JStr ''S''), (''userQuery'', JStr ''Q'')]))) =
     [Construct sample_init, GetModel text_model_params, GetModel image_model_params,
      GenerateContent text_model_params (text_request (JStr ''S'') (JStr ''Q''))] \<and>
   generateContent failing_lib sample_init text_model_params
     (text_request (JStr ''S'') (JStr ''Q'')) =
     Inl (Thrown ''ClientError'' ''quota exceeded'') \<and>
   result (handler sample_rt failing_lib sample_env
             (post ''generateText''
                (JObj [(''systemPrompt'', JStr ''S''), (''userQuery'', JStr ''Q'')]))) =
     Responded
       \<lparr>status = 500,
        headers = [(''Access-Control-Allow-Origin'', ''*''),
                   (''Access-Control-Allow-Methods'', ''POST, OPTIONS''),
                   (''Access-Control-Allow-Headers'', ''Content-Type'')],
        payload_sent = Json (JObj [(''error'', JStr ''API Error: quota exceeded'')])\<rparr>"
proof -
  let ?req = "post ''generateText''
                (JObj [(''systemPrompt'', JStr ''S''), (''userQuery'', JStr ''Q'')])"
  let ?other = "\<lparr>GOOGLE_PROJECT_ID = Some ''other-project'',
                  GOOGLE_SERVICE_ACCOUNT_KEY = Some ''{}''\<rparr>"
  let ?unset = "\<lparr>GOOGLE_PROJECT_ID = Some ''my-project'', GOOGLE_SERVICE_ACCOUNT_KEY = None\<rparr>"
  let ?keyData = "JObj [(''private_key'', JStr ''K''), (''client_email'', JStr ''E'')]"
  have pre: "GOOGLE_PROJECT_ID sample_env = Some ''my-project''"
    "GOOGLE_SERVICE_ACCOUNT_KEY sample_env = Some sample_key"
    "JSON_parse sample_rt sample_key = Inr ?keyData"
    "JSON_parse sample_rt ''{}'' = Inr (JObj [])"
    by (simp_all add: sample_env_def sample_rt_def sample_key_def)
  have same: "result (handler sample_rt sample_lib sample_env ?req) =
      result (handler sample_rt sample_lib ?other ?req)"
    using credentials_only_through_library [of sample_env sample_rt ?other sample_lib ?req,
        THEN conjunct1, rule_format,
        of "''my-project''" sample_key ?keyData "''other-project''" "''{}''" "JObj []"
          sample_init
          "vertex_init (''other-project'', field (JObj []) ''private_key'',
             field (JObj []) ''client_email'')"]
      pre
    by (simp add: sample_key_def sample_init_def sample_lib_def nullish_def vertex_init_def)
  have quiet: "sdk_calls (handler sample_rt sample_lib ?unset ?req) = []"
    by (simp add: handler_eval sample_eval)
  have fixed: "result (handler sample_rt sample_lib ?unset ?req) =
      Responded
        \<lparr>status = 500,
         headers = [(''Access-Control-Allow-Origin'', ''*''),
                    (''Access-Control-Allow-Methods'', ''POST, OPTIONS''),
                    (''Access-Control-Allow-Headers'', ''Content-Type'')],
         payload_sent =
           Json (JObj [(''error'',
             JStr ''Server configuration error. Missing API credentials.'')])\<rparr>"
    using credentials_only_through_library [of ?unset sample_rt sample_env sample_lib ?req,
        THEN conjunct2, THEN conjunct1, rule_format, OF quiet]
    by (simp add: handler_eval sample_eval)
  have calls: "sdk_calls (handler sample_rt failing_lib sample_env ?req) =
      [Construct sample_init, GetModel text_model_params, GetModel image_model_params,
       GenerateContent text_model_params (text_request (JStr ''S'') (JStr ''Q''))]"
    by (simp add: handler_eval sample_eval)
  have fails: "generateContent failing_lib sample_init text_model_params
      (text_request (JStr ''S'') (JStr ''Q'')) = Inl (Thrown ''ClientError'' ''quota exceeded'')"
    by (simp add: failing_lib_def)
  have copied: "result (handler sample_rt failing_lib sample_env ?req) =
      Responded
        \<lparr>status = 500,
         headers = [(''Access-Control-Allow-Origin'', ''*''),
                   (''Access-Control-Allow-Methods'', ''POST, OPTIONS''),
                   (''Access-Control-Allow-Headers'', ''Content-Type'')],
         payload_sent = Json (JObj [(''error'', JStr ''API Error: quota exceeded'')])\<rparr>"
    using credentials_only_through_library [of sample_env sample_rt sample_env failing_lib ?req,
        THEN conjunct2, THEN conjunct2, rule_format,
        of "''my-project''" sample_key ?keyData sample_init text_model_params
          "text_request (JStr ''S'') (JStr ''Q'')" "Thrown ''ClientError'' ''quota exceeded''"]
      pre calls fails
    by (simp add: sample_key_def sample_init_def failing_lib_def nullish_def vertex_init_def
        post_def)
  from pre same quiet fixed calls fails copied show ?thesis
    by simp
qed

text \<open>
  The claim as stated fails when the provider's own error names a credential:
  with a library whose error message holds the project of the client, the
  project identifier of the environment stands in the body of the 500
  response (line 130 copies \<^verbatim>\<open>error.message\<close>).
\<close>

theorem provider_message_counterexample:
  "GOOGLE_PROJECT_ID sample_env = Some ''my-project'' \<and>
   generateContent leaky_lib sample_init text_model_params
     (text_request (JStr ''S'') (JStr ''Q'')) =
     Inl (Thrown ''ClientError'' (''Permission denied on resource project '' @ ''my-project'')) \<and>
   result (handler sample_rt leaky_lib sample_env
             (post ''generateText''
                (JObj [(''systemPrompt'', JStr ''S''), (''userQuery'', JStr ''Q'')]))) =
     Responded
       \<lparr>status = 500,
        headers = [(''Access-Control-Allow-Origin'', ''*''),
                   (''Access-Control-Allow-Methods'', ''POST, OPTIONS''),
                   (''Access-Control-Allow-Headers'', ''Content-Type'')],
        payload_sent =
          Json (JObj [(''error'',
                  JStr (''API Error: Permission denied on resource project '' @
                        ''my-project''))])\<rparr>"
  by (simp add: handler_eval sample_eval leaky_lib_def)

subsection \<open>C7: an unknown step\<close>

text \<open>
  C7. A POST request that passes credential resolution and whose body carries a
  \<^verbatim>\<open>step\<close> that is none of generateText, generateImage and describeImage
  (the field may also be absent) is answered with status 400 and the body
  \<^verbatim>\<open>{error: "Invalid step provided"}\<close>. The client and both models have
  been built by then; the provider is not called. The request has a body (the
  step is read from it) and the library builds the client and the models.
\<close>

theorem invalid_step:
  assumes "req_method req = ''POST''"
    and "GOOGLE_PROJECT_ID ev = Some pid" and "pid \<noteq> []"
    and "GOOGLE_SERVICE_ACCOUNT_KEY ev = Some key" and "key \<noteq> []"
    and "JSON_parse rt key = Inr keyData" and "\<not> nullish keyData"
    and "init = vertex_init (pid, field keyData ''private_key'', field keyData ''client_email'')"
    and "new_VertexAI lib init = None"
    and "getGenerativeModel lib init text_model_params = None"
    and "getGenerativeModel lib init image_model_params = None"
    and "\<not> nullish (body req)"
    and "field (body req) ''step'' \<noteq> JStr ''generateText''"
    and "field (body req) ''step'' \<noteq> JStr ''generateImage''"
    and "field (body req) ''step'' \<noteq> JStr ''describeImage''"
  shows "handler rt lib ev req =
           \<lparr>result = Responded
              \<lparr>status = 400,
               headers = [(''Access-Control-Allow-Origin'', ''*''),
                          (''Access-Control-Allow-Methods'', ''POST, OPTIONS''),
                          (''Access-Control-Allow-Headers'', ''Content-Type'')],
               payload_sent = Json (JObj [(''error'', JStr ''Invalid step provided'')])\<rparr>,
            sdk_calls = [Construct init, GetModel text_model_params,
                         GetModel image_model_params],
            console = []\<rparr>"
  using handler_valid_post [OF assms(1-12) refl] assms(13-15)
  by (simp add: respond_json_def error_envelope_def cors_headers_eq)

theorem invalid_step_witness:
  "req_method (post ''bogus'' (JObj [(''prompt'', JStr ''P'')])) = ''POST'' \<and>
   GOOGLE_PROJECT_ID sample_env = Some ''my-project'' \<and>
   GOOGLE_SERVICE_ACCOUNT_KEY sample_env = Some sample_key \<and>
   JSON_parse sample_rt sample_key =
     Inr (JObj [(''private_key'', JStr ''K''), (''client_email'', JStr ''E'')]) \<and>
   field (body (post ''bogus'' (JObj [(''prompt'', JStr ''P'')]))) ''step'' = JStr ''bogus'' \<and>
   handler sample_rt sample_lib sample_env (post ''bogus'' (JObj [(''prompt'', JStr ''P'')])) =
     \<lparr>result = Responded
        \<lparr>status = 400,
         headers = [(''Access-Control-Allow-Origin'', ''*''),
                    (''Access-Control-Allow-Methods'', ''POST, OPTIONS''),
                    (''Access-Control-Allow-Headers'', ''Content-Type'')],
         payload_sent = Json (JObj [(''error'', JStr ''Invalid step provided'')])\<rparr>,
      sdk_calls = [Construct sample_init, GetModel text_model_params,
                   GetModel image_model_params],
      console = []\<rparr>"
  using invalid_step [where req = "post ''bogus'' (JObj [(''prompt'', JStr ''P'')])"
      and ev = sample_env and rt = sample_rt and lib = sample_lib and init = sample_init
      and pid = "''my-project''" and key = sample_key
      and keyData = "JObj [(''private_key'', JStr ''K''), (''client_email'', JStr ''E'')]"]
  by (simp add: sample_eval nullish_def vertex_init_def)

subsection \<open>C8: the method gate\<close>

text \<open>
  C8. A request whose method is neither POST nor OPTIONS is answered with status
  405 and the body \<^verbatim>\<open>{error: "Method Not Allowed"}\<close>, whatever the
  environment, the library and the body are; nothing is read or called.
\<close>

theorem method_gate:
  assumes "req_method req \<noteq> ''POST''" and "req_method req \<noteq> ''OPTIONS''"
  shows "handler rt lib ev req =
           \<lparr>result = Responded
              \<lparr>status = 405,
               headers = [(''Access-Control-Allow-Origin'', ''*''),
                          (''Access-Control-Allow-Methods'', ''POST, OPTIONS''),
                          (''Access-Control-Allow-Headers'', ''Content-Type'')],
               payload_sent = Json (JObj [(''error'', JStr ''Method Not Allowed'')])\<rparr>,
            sdk_calls = [], console = []\<rparr>"
  using assms
  by (simp add: handler_def Let_def finish_def respond_json_def error_envelope_def
      cors_headers_eq)

theorem method_gate_witness:
  "''DELETE'' \<noteq> ''POST'' \<and> ''DELETE'' \<noteq> ''OPTIONS'' \<and>
   handler sample_rt failing_lib
     \<lparr>GOOGLE_PROJECT_ID = None, GOOGLE_SERVICE_ACCOUNT_KEY = None\<rparr>
     \<lparr>req_method = ''DELETE'', body = JObj [(''step'', JStr ''generateText'')]\<rparr> =
     \<lparr>result = Responded
        \<lparr>status = 405,
         headers = [(''Access-Control-Allow-Origin'', ''*''),
                    (''Access-Control-Allow-Methods'', ''POST, OPTIONS''),
                    (''Access-Control-Allow-Headers'', ''Content-Type'')],
         payload_sent = Json (JObj [(''error'', JStr ''Method Not Allowed'')])\<rparr>,
      sdk_calls = [], console = []\<rparr>"
  using method_gate [of "\<lparr>req_method = ''DELETE'', body = JObj [(''step'', JStr ''generateText'')]\<rparr>"
      sample_rt failing_lib "\<lparr>GOOGLE_PROJECT_ID = None, GOOGLE_SERVICE_ACCOUNT_KEY = None\<rparr>"]
  by simp

subsection \<open>C9: CORS headers and the pre-flight request\<close>

text \<open>
  C9. Every response the handler sends, on every path, carries the three headers
  Access-Control-Allow-Origin: *, Access-Control-Allow-Methods: POST, OPTIONS
  and Access-Control-Allow-Headers: Content-Type; and an OPTIONS request is
  answered at once with status 200 and no body, before the environment is read
  or the library is called.
\<close>

theorem cors_and_preflight:
  "(\<forall>r. result (handler rt lib ev req) = Responded r \<longrightarrow>
        headers r = [(''Access-Control-Allow-Origin'', ''*''),
                     (''Access-Control-Allow-Methods'', ''POST, OPTIONS''),
                     (''Access-Control-Allow-Headers'', ''Content-Type'')]) \<and>
   (req_method req = ''OPTIONS'' \<longrightarrow>
      handler rt lib ev req =
        \<lparr>result = Responded
           \<lparr>status = 200,
            headers = [(''Access-Control-Allow-Origin'', ''*''),
                       (''Access-Control-Allow-Methods'', ''POST, OPTIONS''),
                       (''Access-Control-Allow-Headers'', ''Content-Type'')],
            payload_sent = NoBody\<rparr>,
         sdk_calls = [], console = []\<rparr>)"
proof (intro conjI allI impI)
  fix r
  assume "result (handler rt lib ev req) = Responded r"
  then have "headers r = cors_headers"
    by (rule handler_headers)
  then show "headers r = [(''Access-Control-Allow-Origin'', ''*''),
                     (''Access-Control-Allow-Methods'', ''POST, OPTIONS''),
                     (''Access-Control-Allow-Headers'', ''Content-Type'')]"
    by (simp add: cors_headers_eq)
next
  assume "req_method req = ''OPTIONS''"
  then show "handler rt lib ev req =
        \<lparr>result = Responded
           \<lparr>status = 200,
            headers = [(''Access-Control-Allow-Origin'', ''*''),
                       (''Access-Control-Allow-Methods'', ''POST, OPTIONS''),
                       (''Access-Control-Allow-Headers'', ''Content-Type'')],
            payload_sent = NoBody\<rparr>,
         sdk_calls = [], console = []\<rparr>"
    by (simp add: handler_def Let_def finish_def respond_end_def cors_headers_eq)
qed

theorem cors_and_preflight_witness:
  "result (handler sample_rt failing_lib sample_env (post ''generateText'' (JObj []))) =
     Responded
       \<lparr>status = 500,
        headers = [(''Access-Control-Allow-Origin'', ''*''),
                   (''Access-Control-Allow-Methods'', ''POST, OPTIONS''),
                   (''Access-Control-Allow-Headers'', ''Content-Type'')],
        payload_sent = Json (JObj [(''error'', JStr ''API Error: quota exceeded'')])\<rparr> \<and>
   req_method \<lparr>req_method = ''OPTIONS'', body = JUndefined\<rparr> = ''OPTIONS'' \<and>
   handler sample_rt sample_lib sample_env \<lparr>req_method = ''OPTIONS'', body = JUndefined\<rparr> =
     \<lparr>result = Responded
        \<lparr>status = 200,
         headers = [(''Access-Control-Allow-Origin'', ''*''),
                    (''Access-Control-Allow-Methods'', ''POST, OPTIONS''),
                    (''Access-Control-Allow-Headers'', ''Content-Type'')],
         payload_sent = NoBody\<rparr>,
      sdk_calls = [], console = []\<rparr>"
  using cors_and_preflight [of sample_rt failing_lib sample_env
      "post ''generateText'' (JObj [])"]
    cors_and_preflight [of sample_rt sample_lib sample_env
      "\<lparr>req_method = ''OPTIONS'', body = JUndefined\<rparr>"]
  by (simp add: handler_eval sample_eval)

subsection \<open>C10: the payload is not validated\<close>

lemma handler_status_recognised_step:
  assumes "result (handler rt lib ev req) = Responded r"
    and "field (body req) ''step'' = JStr ''generateText'' \<or>
         field (body req) ''step'' = JStr ''generateImage'' \<or>
         field (body req) ''step'' = JStr ''describeImage''"
    and "req_method req = ''POST''"
  shows "status r = 200 \<or> status r = 500"
proof (cases "resolve_credentials rt cors_headers ev")
  case (Inl r')
  with assms(1,3) have "r = r'"
    by (simp add: handler_def Let_def finish_def)
  with resolve_credentials_Inl [OF Inl] show ?thesis
    by (auto simp: respond_json_def)
next
  case (Inr creds)
  have "snd (try_body rt lib cors_headers (vertex_init creds) (field (body req) ''step'')
               (field (body req) ''payload'')) = Inr r' \<Longrightarrow> status r' = 200" for r'
    using assms(2) unfolding try_body_def case_generateText_def case_generateImage_def
      case_describeImage_def
    by (auto dest!: snd_bind_c_Inr_D simp: snd_pure_c respond_json_def split: if_splits)
  with assms(1) handler_result_after_resolution(1) [OF assms(3) Inr, of lib] show ?thesis
    by (auto simp: get_prop_def catch_api_error_def respond_json_def
        split: option.splits if_splits sum.splits)
qed

text \<open>
  C10, as the handler has it. For a POST request that passes credential
  resolution and names one of the three steps, the payload is not validated.
  When the payload is \<^verbatim>\<open>undefined\<close> or \<^verbatim>\<open>null\<close>, destructuring it throws
  inside the \<^verbatim>\<open>try\<close>: the response is status 500 with
  \<^verbatim>\<open>{error: "API Error: <message of the TypeError>"}\<close>, and the provider is
  not called. Any other payload, whatever fields it lacks, goes to the
  provider in the request of its step, an absent field as \<^verbatim>\<open>undefined\<close>, and
  the provider's outcome decides the response: an error thrown by the call
  gives status 500 with \<^verbatim>\<open>{error: "API Error: <message>"}\<close>; a result from
  which the text or the image can be read gives status 200 with it; a result
  on which the read throws, or an image result without inline data, gives
  status 500 with \<^verbatim>\<open>{error: "API Error: <message>"}\<close>. In no case is the
  status 400.
\<close>

theorem payload_not_validated:
  assumes "req_method req = ''POST''"
    and "GOOGLE_PROJECT_ID ev = Some pid" and "pid \<noteq> []"
    and "GOOGLE_SERVICE_ACCOUNT_KEY ev = Some key" and "key \<noteq> []"
    and "JSON_parse rt key = Inr keyData" and "\<not> nullish keyData"
    and "init = vertex_init (pid, field keyData ''private_key'', field keyData ''client_email'')"
    and "new_VertexAI lib init = None"
    and "getGenerativeModel lib init text_model_params = None"
    and "getGenerativeModel lib init image_model_params = None"
    and "\<not> nullish (body req)"
    and "step = JStr ''generateText'' \<or> step = JStr ''generateImage'' \<or>
         step = JStr ''describeImage''"
    and "step = field (body req) ''step''"
    and "payload = field (body req) ''payload''"
    and "first_name = (if step = JStr ''generateImage'' then ''prompt'' else ''systemPrompt'')"
    and "m = (if step = JStr ''generateImage'' then image_model_params
              else text_model_params)"
    and "rq =
           (if step = JStr ''generateText''
            then JObj [(''contents'',
                          JArr [JObj [(''role'', JStr ''user''),
                                      (''parts'',
                                         JArr [JObj [(''text'',
                                                        field payload ''userQuery'')]])]]),
                       (''systemInstruction'',
                          JObj [(''parts'',
                                   JArr [JObj [(''text'', field payload ''systemPrompt'')]])])]
            else if step = JStr ''generateImage''
            then JObj [(''contents'',
                          JArr [JObj [(''role'', JStr ''user''),
                                      (''parts'',
                                         JArr [JObj [(''text'', field payload ''prompt'')]])]]),
                       (''generationConfig'',
                          JObj [(''responseModalities'', JArr [JStr ''IMAGE''])])]
            else JObj [(''contents'',
                          JArr [JObj [(''role'', JStr ''user''),
                                      (''parts'',
                                         JArr [JObj [(''text'', field payload ''systemPrompt'')],
                                               JObj [(''inlineData'',
                                                        JObj [(''mimeType'', JStr ''image/png''),
                                                              (''data'',
                                                                 field payload
                                                                   ''base64Data'')])]])]])])"
    and "fail = (\<lambda>msg. Responded
                     \<lparr>status = 500,
                      headers = [(''Access-Control-Allow-Origin'', ''*''),
                                 (''Access-Control-Allow-Methods'', ''POST, OPTIONS''),
                                 (''Access-Control-Allow-Headers'', ''Content-Type'')],
                      payload_sent = Json (JObj [(''error'', JStr (''API Error: '' @ msg))])\<rparr>)"
    and "ok = (\<lambda>b. Responded
                   \<lparr>status = 200,
                    headers = [(''Access-Control-Allow-Origin'', ''*''),
                               (''Access-Control-Allow-Methods'', ''POST, OPTIONS''),
                               (''Access-Control-Allow-Headers'', ''Content-Type'')],
                    payload_sent = Json b\<rparr>)"
  shows "(payload = JUndefined \<or> payload = JNull \<longrightarrow>
            handler rt lib ev req =
              \<lparr>result = fail (type_error_text rt (NullishRead payload first_name)),
               sdk_calls = [Construct init, GetModel text_model_params,
                            GetModel image_model_params],
               console = [Thrown ''TypeError''
                            (type_error_text rt (NullishRead payload first_name))]\<rparr>) \<and>
         (payload \<noteq> JUndefined \<and> payload \<noteq> JNull \<longrightarrow>
            sdk_calls (handler rt lib ev req) =
              [Construct init, GetModel text_model_params, GetModel image_model_params,
               GenerateContent m rq] \<and>
            (\<forall>e. generateContent lib init m rq = Inl e \<longrightarrow>
                 result (handler rt lib ev req) = fail (message e)) \<and>
            (\<forall>resp r cs c co parts p.
               generateContent lib init m rq = Inr resp \<and>
               r = field resp ''response'' \<and> cs = field r ''candidates'' \<and>
               c = first_elem cs \<and> co = field c ''content'' \<and> parts = field co ''parts'' \<and>
               p = first_elem parts \<longrightarrow>
               result (handler rt lib ev req) =
                 (if nullish resp then fail (type_error_text rt (NullishRead resp ''response''))
                  else if nullish r then fail (type_error_text rt (NullishRead r ''candidates''))
                  else if nullish cs then fail (type_error_text rt (NullishRead cs ''0''))
                  else if nullish c then fail (type_error_text rt (NullishRead c ''content''))
                  else if nullish co then fail (type_error_text rt (NullishRead co ''parts''))
                  else if step = JStr ''generateImage''
                  then
                    (if nullish parts
                     then fail (type_error_text rt (NullishRead parts ''find''))
                     else case parts of
                       JArr ps \<Rightarrow>
                         (case dropWhile
                                 (\<lambda>p. \<not> nullish p \<and> \<not> truthy (field p ''inlineData'')) ps of
                            [] \<Rightarrow> fail ''No image data returned from Imagen.''
                          | q # rest \<Rightarrow>
                              if nullish q
                              then fail (type_error_text rt (NullishRead q ''inlineData''))
                              else ok (JObj [(''base64Image'',
                                                field (field q ''inlineData'') ''data'')]))
                     | _ \<Rightarrow> fail (type_error_text rt (NotCallable ''find'')))
                  else if nullish parts
                  then fail (type_error_text rt (NullishRead parts ''0''))
                  else if nullish p then fail (type_error_text rt (NullishRead p ''text''))
                  else ok (JObj [(''text'', field p ''text'')])))) \<and>
         (\<forall>kvs k. map_of kvs k = None \<longrightarrow> field (JObj kvs) k = JUndefined) \<and>
         (\<forall>r. result (handler rt lib ev req) = Responded r \<longrightarrow>
              status r = 200 \<or> status r = 500)"
proof -
  note h = handler_valid_post [OF assms(1-12) refl]
  have failI: "Responded (catch_api_error cors_headers e) = fail (message e)" for e
    by (simp add: assms(19) catch_api_error_def respond_json_def error_envelope_def
        cors_headers_eq)
  have okI: "Responded (respond_json cors_headers 200 b) = ok b" for b
    by (simp add: assms(20) respond_json_def cors_headers_eq)
  have msg: "message (type_error rt f) = type_error_text rt f" for f
    by (simp add: type_error_def)
  have msg2: "message (Thrown n t) = t" for n t
    by simp
  have first: "payload = JUndefined \<or> payload = JNull \<longrightarrow>
            handler rt lib ev req =
              \<lparr>result = fail (type_error_text rt (NullishRead payload first_name)),
               sdk_calls = [Construct init, GetModel text_model_params,
                            GetModel image_model_params],
               console = [Thrown ''TypeError''
                            (type_error_text rt (NullishRead payload first_name))]\<rparr>"
  proof
    assume "payload = JUndefined \<or> payload = JNull"
    then have n: "nullish (field (body req) ''payload'')"
      using assms(15) by (simp add: nullish_def)
    from assms(13) show "handler rt lib ev req =
              \<lparr>result = fail (type_error_text rt (NullishRead payload first_name)),
               sdk_calls = [Construct init, GetModel text_model_params,
                            GetModel image_model_params],
               console = [Thrown ''TypeError''
                            (type_error_text rt (NullishRead payload first_name))]\<rparr>"
      unfolding assms(14)
      by (auto simp: h case_nullish_payload [OF n] assms(14,15,16) failI msg
          simp: type_error_def)
  qed
  have second: "payload \<noteq> JUndefined \<and> payload \<noteq> JNull \<longrightarrow>
            sdk_calls (handler rt lib ev req) =
              [Construct init, GetModel text_model_params, GetModel image_model_params,
               GenerateContent m rq] \<and>
            (\<forall>e. generateContent lib init m rq = Inl e \<longrightarrow>
                 result (handler rt lib ev req) = fail (message e)) \<and>
            (\<forall>resp r cs c co parts p.
               generateContent lib init m rq = Inr resp \<and>
               r = field resp ''response'' \<and> cs = field r ''candidates'' \<and>
               c = first_elem cs \<and> co = field c ''content'' \<and> parts = field co ''parts'' \<and>
               p = first_elem parts \<longrightarrow>
               result (handler rt lib ev req) =
                 (if nullish resp then fail (type_error_text rt (NullishRead resp ''response''))
                  else if nullish r then fail (type_error_text rt (NullishRead r ''candidates''))
                  else if nullish cs then fail (type_error_text rt (NullishRead cs ''0''))
                  else if nullish c then fail (type_error_text rt (NullishRead c ''content''))
                  else if nullish co then fail (type_error_text rt (NullishRead co ''parts''))
                  else if step = JStr ''generateImage''
                  then
                    (if nullish parts
                     then fail (type_error_text rt (NullishRead parts ''find''))
                     else case parts of
                       JArr ps \<Rightarrow>
                         (case dropWhile
                                 (\<lambda>p. \<not> nullish p \<and> \<not> truthy (field p ''inlineData'')) ps of
                            [] \<Rightarrow> fail ''No image data returned from Imagen.''
                          | q # rest \<Rightarrow>
                              if nullish q
                              then fail (type_error_text rt (NullishRead q ''inlineData''))
                              else ok (JObj [(''base64Image'',
                                                field (field q ''inlineData'') ''data'')]))
                     | _ \<Rightarrow> fail (type_error_text rt (NotCallable ''find'')))
                  else if nullish parts
                  then fail (type_error_text rt (NullishRead parts ''0''))
                  else if nullish p then fail (type_error_text rt (NullishRead p ''text''))
                  else ok (JObj [(''text'', field p ''text'')])))"
  proof
    assume "payload \<noteq> JUndefined \<and> payload \<noteq> JNull"
    then have n: "\<not> nullish (field (body req) ''payload'')"
      using assms(15) by (simp add: nullish_def)
    consider (is_text) "step = JStr ''generateText''" | (is_image) "step = JStr ''generateImage''"
      | (is_describe) "step = JStr ''describeImage''"
      using assms(13) by blast
    then show "sdk_calls (handler rt lib ev req) =
              [Construct init, GetModel text_model_params, GetModel image_model_params,
               GenerateContent m rq] \<and>
            (\<forall>e. generateContent lib init m rq = Inl e \<longrightarrow>
                 result (handler rt lib ev req) = fail (message e)) \<and>
            (\<forall>resp r cs c co parts p.
               generateContent lib init m rq = Inr resp \<and>
               r = field resp ''response'' \<and> cs = field r ''candidates'' \<and>
               c = first_elem cs \<and> co = field c ''content'' \<and> parts = field co ''parts'' \<and>
               p = first_elem parts \<longrightarrow>
               result (handler rt lib ev req) =
                 (if nullish resp then fail (type_error_text rt (NullishRead resp ''response''))
                  else if nullish r then fail (type_error_text rt (NullishRead r ''candidates''))
                  else if nullish cs then fail (type_error_text rt (NullishRead cs ''0''))
                  else if nullish c then fail (type_error_text rt (NullishRead c ''content''))
                  else if nullish co then fail (type_error_text rt (NullishRead co ''parts''))
                  else if step = JStr ''generateImage''
                  then
                    (if nullish parts
                     then fail (type_error_text rt (NullishRead parts ''find''))
                     else case parts of
                       JArr ps \<Rightarrow>
                         (case dropWhile
                                 (\<lambda>p. \<not> nullish p \<and> \<not> truthy (field p ''inlineData'')) ps of
                            [] \<Rightarrow> fail ''No image data returned from Imagen.''
                          | q # rest \<Rightarrow>
                              if nullish q
                              then fail (type_error_text rt (NullishRead q ''inlineData''))
                              else ok (JObj [(''base64Image'',
                                                field (field q ''inlineData'') ''data'')]))
                     | _ \<Rightarrow> fail (type_error_text rt (NotCallable ''find'')))
                  else if nullish parts
                  then fail (type_error_text rt (NullishRead parts ''0''))
                  else if nullish p then fail (type_error_text rt (NullishRead p ''text''))
                  else ok (JObj [(''text'', field p ''text'')])))"
    proof cases
      case is_text
      then have st: "field (body req) ''step'' = JStr ''generateText''"
        using assms(14) by simp
      have m: "m = text_model_params" using is_text assms(17) by simp
      have rq: "rq = text_request (field (field (body req) ''payload'') ''systemPrompt'')
                       (field (field (body req) ''payload'') ''userQuery'')"
        using is_text assms(18,15) by (simp add: text_request_def)
      note b = branch_result [OF generateText_run [OF assms(1-12) st n rq refl]]
      show ?thesis
      proof (intro conjI allI impI)
        show "sdk_calls (handler rt lib ev req) =
            [Construct init, GetModel text_model_params, GetModel image_model_params,
             GenerateContent m rq]"
          using b(1) by (simp add: m)
      next
        fix e
        assume "generateContent lib init m rq = Inl e"
        then show "result (handler rt lib ev req) = fail (message e)"
          using b(2) [of e] by (simp add: m failI)
      next
        fix resp r cs c co parts p
        assume a: "generateContent lib init m rq = Inr resp \<and>
               r = field resp ''response'' \<and> cs = field r ''candidates'' \<and>
               c = first_elem cs \<and> co = field c ''content'' \<and> parts = field co ''parts'' \<and>
               p = first_elem parts"
        then have "generateContent lib init text_model_params rq = Inr resp"
          by (simp add: m)
        note res = b(3) [OF this, unfolded text_response]
        from a show "result (handler rt lib ev req) =
                 (if nullish resp then fail (type_error_text rt (NullishRead resp ''response''))
                  else if nullish r then fail (type_error_text rt (NullishRead r ''candidates''))
                  else if nullish cs then fail (type_error_text rt (NullishRead cs ''0''))
                  else if nullish c then fail (type_error_text rt (NullishRead c ''content''))
                  else if nullish co then fail (type_error_text rt (NullishRead co ''parts''))
                  else if step = JStr ''generateImage''
                  then
                    (if nullish parts
                     then fail (type_error_text rt (NullishRead parts ''find''))
                     else case parts of
                       JArr ps \<Rightarrow>
                         (case dropWhile
                                 (\<lambda>p. \<not> nullish p \<and> \<not> truthy (field p ''inlineData'')) ps of
                            [] \<Rightarrow> fail ''No image data returned from Imagen.''
                          | q # rest \<Rightarrow>
                              if nullish q
                              then fail (type_error_text rt (NullishRead q ''inlineData''))
                              else ok (JObj [(''base64Image'',
                                                field (field q ''inlineData'') ''data'')]))
                     | _ \<Rightarrow> fail (type_error_text rt (NotCallable ''find'')))
                  else if nullish parts
                  then fail (type_error_text rt (NullishRead parts ''0''))
                  else if nullish p then fail (type_error_text rt (NullishRead p ''text''))
                  else ok (JObj [(''text'', field p ''text'')]))"
          unfolding res
          by (simp add: is_text Let_def failI okI msg msg2
              cong: if_cong list.case_cong jsval.case_cong)
      qed
    next
      case is_describe
      then have st: "field (body req) ''step'' = JStr ''describeImage''"
        using assms(14) by simp
      have m: "m = text_model_params" using is_describe assms(17) by simp
      have rq: "rq = describe_request (field (field (body req) ''payload'') ''systemPrompt'')
                       (field (field (body req) ''payload'') ''base64Data'')"
        using is_describe assms(18,15) by (simp add: describe_request_def)
      note b = branch_result [OF describeImage_run [OF assms(1-12) st n rq refl]]
      show ?thesis
      proof (intro conjI allI impI)
        show "sdk_calls (handler rt lib ev req) =
            [Construct init, GetModel text_model_params, GetModel image_model_params,
             GenerateContent m rq]"
          using b(1) by (simp add: m)
      next
        fix e
        assume "generateContent lib init m rq = Inl e"
        then show "result (handler rt lib ev req) = fail (message e)"
          using b(2) [of e] by (simp add: m failI)
      next
        fix resp r cs c co parts p
        assume a: "generateContent lib init m rq = Inr resp \<and>
               r = field resp ''response'' \<and> cs = field r ''candidates'' \<and>
               c = first_elem cs \<and> co = field c ''content'' \<and> parts = field co ''parts'' \<and>
               p = first_elem parts"
        then have "generateContent lib init text_model_params rq = Inr resp"
          by (simp add: m)
        note res = b(3) [OF this, unfolded text_response]
        from a show "result (handler rt lib ev req) =
                 (if nullish resp then fail (type_error_text rt (NullishRead resp ''response''))
                  else if nullish r then fail (type_error_text rt (NullishRead r ''candidates''))
                  else if nullish cs then fail (type_error_text rt (NullishRead cs ''0''))
                  else if nullish c then fail (type_error_text rt (NullishRead c ''content''))
                  else if nullish co then fail (type_error_text rt (NullishRead co ''parts''))
                  else if step = JStr ''generateImage''
                  then
                    (if nullish parts
                     then fail (type_error_text rt (NullishRead parts ''find''))
                     else case parts of
                       JArr ps \<Rightarrow>
                         (case dropWhile
                                 (\<lambda>p. \<not> nullish p \<and> \<not> truthy (field p ''inlineData'')) ps of
                            [] \<Rightarrow> fail ''No image data returned from Imagen.''
                          | q # rest \<Rightarrow>
                              if nullish q
                              then fail (type_error_text rt (NullishRead q ''inlineData''))
                              else ok (JObj [(''base64Image'',
                                                field (field q ''inlineData'') ''data'')]))
                     | _ \<Rightarrow> fail (type_error_text rt (NotCallable ''find'')))
                  else if nullish parts
                  then fail (type_error_text rt (NullishRead parts ''0''))
                  else if nullish p then fail (type_error_text rt (NullishRead p ''text''))
                  else ok (JObj [(''text'', field p ''text'')]))"
          unfolding res
          by (simp add: is_describe Let_def failI okI msg msg2
              cong: if_cong list.case_cong jsval.case_cong)
      qed
    next
      case is_image
      then have st: "field (body req) ''step'' = JStr ''generateImage''"
        using assms(14) by simp
      have m: "m = image_model_params" using is_image assms(17) by simp
      have rq: "rq = image_request (field (field (body req) ''payload'') ''prompt'')"
        using is_image assms(18,15) by (simp add: image_request_def)
      note b = branch_result [OF generateImage_run [OF assms(1-12) st n rq refl]]
      show ?thesis
      proof (intro conjI allI impI)
        show "sdk_calls (handler rt lib ev req) =
            [Construct init, GetModel text_model_params, GetModel image_model_params,
             GenerateContent m rq]"
          using b(1) by (simp add: m)
      next
        fix e
        assume "generateContent lib init m rq = Inl e"
        then show "result (handler rt lib ev req) = fail (message e)"
          using b(2) [of e] by (simp add: m failI)
      next
        fix resp r cs c co parts p
        assume a: "generateContent lib init m rq = Inr resp \<and>
               r = field resp ''response'' \<and> cs = field r ''candidates'' \<and>
               c = first_elem cs \<and> co = field c ''content'' \<and> parts = field co ''parts'' \<and>
               p = first_elem parts"
        then have "generateContent lib init image_model_params rq = Inr resp"
          by (simp add: m)
        note res = b(3) [OF this, unfolded image_response]
        from a show "result (handler rt lib ev req) =
                 (if nullish resp then fail (type_error_text rt (NullishRead resp ''response''))
                  else if nullish r then fail (type_error_text rt (NullishRead r ''candidates''))
                  else if nullish cs then fail (type_error_text rt (NullishRead cs ''0''))
                  else if nullish c then fail (type_error_text rt (NullishRead c ''content''))
                  else if nullish co then fail (type_error_text rt (NullishRead co ''parts''))
                  else if step = JStr ''generateImage''
                  then
                    (if nullish parts
                     then fail (type_error_text rt (NullishRead parts ''find''))
                     else case parts of
                       JArr ps \<Rightarrow>
                         (case dropWhile
                                 (\<lambda>p. \<not> nullish p \<and> \<not> truthy (field p ''inlineData'')) ps of
                            [] \<Rightarrow> fail ''No image data returned from Imagen.''
                          | q # rest \<Rightarrow>
                              if nullish q
                              then fail (type_error_text rt (NullishRead q ''inlineData''))
                              else ok (JObj [(''base64Image'',
                                                field (field q ''inlineData'') ''data'')]))
                     | _ \<Rightarrow> fail (type_error_text rt (NotCallable ''find'')))
                  else if nullish parts
                  then fail (type_error_text rt (NullishRead parts ''0''))
                  else if nullish p then fail (type_error_text rt (NullishRead p ''text''))
                  else ok (JObj [(''text'', field p ''text'')]))"
          unfolding res
          by (simp add: is_image Let_def failI okI msg msg2
              cong: if_cong list.case_cong jsval.case_cong)
      qed
    qed
  qed
  have third: "\<forall>kvs k. map_of kvs k = None \<longrightarrow> field (JObj kvs) k = JUndefined"
    by simp
  have fourth: "\<forall>r. result (handler rt lib ev req) = Responded r \<longrightarrow>
      status r = 200 \<or> status r = 500"
  proof (intro allI impI)
    fix r
    assume "result (handler rt lib ev req) = Responded r"
    moreover have "field (body req) ''step'' = JStr ''generateText'' \<or>
        field (body req) ''step'' = JStr ''generateImage'' \<or>
        field (body req) ''step'' = JStr ''describeImage''"
      using assms(13,14) by simp
    ultimately show "status r = 200 \<or> status r = 500"
      using assms(1) by (rule handler_status_recognised_step)
  qed
  from first second third fourth show ?thesis
    by (intro conjI)
qed


theorem payload_not_validated_witness:
  "req_method (post ''generateImage'' JNull) = ''POST'' \<and>
   GOOGLE_PROJECT_ID sample_env = Some ''my-project'' \<and>
   GOOGLE_SERVICE_ACCOUNT_KEY sample_env = Some sample_key \<and>
   JSON_parse sample_rt sample_key =
     Inr (JObj [(''private_key'', JStr ''K''), (''client_email'', JStr ''E'')]) \<and>
   field (body (post ''generateImage'' JNull)) ''payload'' = JNull \<and>
   handler sample_rt sample_lib sample_env (post ''generateImage'' JNull) =
     \<lparr>result = Responded
        \<lparr>status = 500,
         headers = [(''Access-Control-Allow-Origin'', ''*''),
                   (''Access-Control-Allow-Methods'', ''POST, OPTIONS''),
                   (''Access-Control-Allow-Headers'', ''Content-Type'')],
         payload_sent =
           Json (JObj [(''error'',
                   JStr (''API Error: '' @
                         type_error_text sample_rt (NullishRead JNull ''prompt'')))])\<rparr>,
      sdk_calls = [Construct sample_init, GetModel text_model_params,
                   GetModel image_model_params],
      console = [Thrown ''TypeError''
                   (type_error_text sample_rt (NullishRead JNull ''prompt''))]\<rparr> \<and>
   field (body (post ''describeImage'' (JObj [(''systemPrompt'', JStr ''D'')]))) ''payload'' =
     JObj [(''systemPrompt'', JStr ''D'')] \<and>
   field (JObj [(''systemPrompt'', JStr ''D'')]) ''base64Data'' = JUndefined \<and>
   sdk_calls (handler sample_rt failing_lib sample_env
                (post ''describeImage'' (JObj [(''systemPrompt'', JStr ''D'')]))) =
     [Construct sample_init, GetModel text_model_params, GetModel image_model_params,
      GenerateContent text_model_params
        (JObj [(''contents'',
                  JArr [JObj [(''role'', JStr ''user''),
                              (''parts'',
                                 JArr [JObj [(''text'', JStr ''D'')],
                                       JObj [(''inlineData'',
                                                JObj [(''mimeType'', JStr ''image/png''),
                                                      (''data'', JUndefined)])]])]])])] \<and>
   result (handler sample_rt failing_lib sample_env
             (post ''describeImage'' (JObj [(''systemPrompt'', JStr ''D'')]))) =
     Responded
       \<lparr>status = 500,
        headers = [(''Access-Control-Allow-Origin'', ''*''),
                   (''Access-Control-Allow-Methods'', ''POST, OPTIONS''),
                   (''Access-Control-Allow-Headers'', ''Content-Type'')],
        payload_sent = Json (JObj [(''error'', JStr ''API Error: quota exceeded'')])\<rparr> \<and>
   result (handler sample_rt sample_lib sample_env
             (post ''generateText'' (JObj [(''userQuery'', JStr ''Q'')]))) =
     Responded
       \<lparr>status = 200,
        headers = [(''Access-Control-Allow-Origin'', ''*''),
                   (''Access-Control-Allow-Methods'', ''POST, OPTIONS''),
                   (''Access-Control-Allow-Headers'', ''Content-Type'')],
        payload_sent = Json (JObj [(''text'', JStr ''hello'')])\<rparr>"
proof -
  let ?keyData = "JObj [(''private_key'', JStr ''K''), (''client_email'', JStr ''E'')]"
  let ?absent = "post ''generateImage'' JNull"
  let ?partial = "post ''describeImage'' (JObj [(''systemPrompt'', JStr ''D'')])"
  let ?query = "post ''generateText'' (JObj [(''userQuery'', JStr ''Q'')])"
  let ?fail = "\<lambda>msg. Responded
                 \<lparr>status = 500,
                  headers = [(''Access-Control-Allow-Origin'', ''*''),
                   (''Access-Control-Allow-Methods'', ''POST, OPTIONS''),
                   (''Access-Control-Allow-Headers'', ''Content-Type'')],
                  payload_sent = Json (JObj [(''error'', JStr (''API Error: '' @ msg))])\<rparr>"
  let ?ok = "\<lambda>b. Responded
               \<lparr>status = 200,
                headers = [(''Access-Control-Allow-Origin'', ''*''),
                   (''Access-Control-Allow-Methods'', ''POST, OPTIONS''),
                   (''Access-Control-Allow-Headers'', ''Content-Type'')],
                payload_sent = Json b\<rparr>"
  let ?hello = "result_with_parts [JObj [(''text'', JStr ''hello'')]]"
  have pre: "req_method ?absent = ''POST''"
    "GOOGLE_PROJECT_ID sample_env = Some ''my-project''"
    "GOOGLE_SERVICE_ACCOUNT_KEY sample_env = Some sample_key"
    "JSON_parse sample_rt sample_key = Inr ?keyData"
    "field (body ?absent) ''payload'' = JNull"
    "field (body ?partial) ''payload'' = JObj [(''systemPrompt'', JStr ''D'')]"
    "field (JObj [(''systemPrompt'', JStr ''D'')]) ''base64Data'' = JUndefined"
    by (simp_all add: sample_eval)
  have env: "GOOGLE_PROJECT_ID sample_env = Some ''my-project''" "''my-project'' \<noteq> []"
    "GOOGLE_SERVICE_ACCOUNT_KEY sample_env = Some sample_key" "sample_key \<noteq> []"
    "JSON_parse sample_rt sample_key = Inr ?keyData" "\<not> nullish ?keyData"
    "sample_init = vertex_init (''my-project'', field ?keyData ''private_key'',
       field ?keyData ''client_email'')"
    by (simp_all add: sample_eval nullish_def vertex_init_def)
  have builds: "new_VertexAI sample_lib sample_init = None"
    "getGenerativeModel sample_lib sample_init text_model_params = None"
    "getGenerativeModel sample_lib sample_init image_model_params = None"
    "new_VertexAI failing_lib sample_init = None"
    "getGenerativeModel failing_lib sample_init text_model_params = None"
    "getGenerativeModel failing_lib sample_init image_model_params = None"
    by (simp_all add: sample_lib_def failing_lib_def)
  have reqs: "req_method ?absent = ''POST''" "\<not> nullish (body ?absent)"
    "JStr ''generateImage'' = field (body ?absent) ''step''"
    "JNull = field (body ?absent) ''payload''"
    "req_method ?partial = ''POST''" "\<not> nullish (body ?partial)"
    "JStr ''describeImage'' = field (body ?partial) ''step''"
    "JObj [(''systemPrompt'', JStr ''D'')] = field (body ?partial) ''payload''"
    "req_method ?query = ''POST''" "\<not> nullish (body ?query)"
    "JStr ''generateText'' = field (body ?query) ''step''"
    "JObj [(''userQuery'', JStr ''Q'')] = field (body ?query) ''payload''"
    by (simp_all add: post_def nullish_def)
  have steps: "JStr ''generateImage'' = JStr ''generateText'' \<or>
      JStr ''generateImage'' = JStr ''generateImage'' \<or>
      JStr ''generateImage'' = JStr ''describeImage''"
    "JStr ''describeImage'' = JStr ''generateText'' \<or>
      JStr ''describeImage'' = JStr ''generateImage'' \<or>
      JStr ''describeImage'' = JStr ''describeImage''"
    "JStr ''generateText'' = JStr ''generateText'' \<or>
      JStr ''generateText'' = JStr ''generateImage'' \<or>
      JStr ''generateText'' = JStr ''describeImage''"
    by simp_all
  have names: "''prompt'' =
      (if JStr ''generateImage'' = JStr ''generateImage'' then ''prompt'' else ''systemPrompt'')"
    "''systemPrompt'' =
      (if JStr ''describeImage'' = JStr ''generateImage'' then ''prompt'' else ''systemPrompt'')"
    "''systemPrompt'' =
      (if JStr ''generateText'' = JStr ''generateImage'' then ''prompt'' else ''systemPrompt'')"
    "image_model_params =
      (if JStr ''generateImage'' = JStr ''generateImage'' then image_model_params
       else text_model_params)"
    "text_model_params =
      (if JStr ''describeImage'' = JStr ''generateImage'' then image_model_params
       else text_model_params)"
    "text_model_params =
      (if JStr ''generateText'' = JStr ''generateImage'' then image_model_params
       else text_model_params)"
    by simp_all
  note A = payload_not_validated
      [where fail = ?fail and ok = ?ok,
        OF reqs(1) env(1-7) builds(1-3) reqs(2) steps(1) reqs(3,4) names(1,4) refl refl refl]
  note P = payload_not_validated
      [where fail = ?fail and ok = ?ok,
        OF reqs(5) env(1-7) builds(4-6) reqs(6) steps(2) reqs(7,8) names(2,5) refl refl refl]
  note Q = payload_not_validated
      [where fail = ?fail and ok = ?ok,
        OF reqs(9) env(1-7) builds(1-3) reqs(10) steps(3) reqs(11,12) names(3,6) refl refl refl]
  have absent: "handler sample_rt sample_lib sample_env ?absent =
     \<lparr>result = Responded
        \<lparr>status = 500,
         headers = [(''Access-Control-Allow-Origin'', ''*''),
                   (''Access-Control-Allow-Methods'', ''POST, OPTIONS''),
                   (''Access-Control-Allow-Headers'', ''Content-Type'')],
         payload_sent =
           Json (JObj [(''error'',
                   JStr (''API Error: '' @
                         type_error_text sample_rt (NullishRead JNull ''prompt'')))])\<rparr>,
      sdk_calls = [Construct sample_init, GetModel text_model_params,
                   GetModel image_model_params],
      console = [Thrown ''TypeError''
                   (type_error_text sample_rt (NullishRead JNull ''prompt''))]\<rparr>"
    using A [THEN conjunct1] by simp
  have partial: "sdk_calls (handler sample_rt failing_lib sample_env ?partial) =
      [Construct sample_init, GetModel text_model_params, GetModel image_model_params,
       GenerateContent text_model_params
         (JObj [(''contents'',
                  JArr [JObj [(''role'', JStr ''user''),
                              (''parts'',
                                 JArr [JObj [(''text'', JStr ''D'')],
                                       JObj [(''inlineData'',
                                                JObj [(''mimeType'', JStr ''image/png''),
                                                      (''data'', JUndefined)])]])]])])]"
    using P [THEN conjunct2, THEN conjunct1] by simp
  have thrown: "result (handler sample_rt failing_lib sample_env ?partial) =
      ?fail ''quota exceeded''"
    using P [THEN conjunct2, THEN conjunct1, rule_format, THEN conjunct2, THEN conjunct1,
        rule_format, of "Thrown ''ClientError'' ''quota exceeded''"]
    by (simp add: failing_lib_def)
  have answered: "result (handler sample_rt sample_lib sample_env ?query) =
      ?ok (JObj [(''text'', JStr ''hello'')])"
    using Q [THEN conjunct2, THEN conjunct1, rule_format, THEN conjunct2, THEN conjunct2,
        rule_format, of ?hello "field ?hello ''response''"
        "field (field ?hello ''response'') ''candidates''"
        "first_elem (field (field ?hello ''response'') ''candidates'')"
        "field (first_elem (field (field ?hello ''response'') ''candidates'')) ''content''"
        "field (field (first_elem (field (field ?hello ''response'') ''candidates''))
           ''content'') ''parts''"
        "first_elem (field (field (first_elem (field (field ?hello ''response'')
           ''candidates'')) ''content'') ''parts'')"]
    by (simp add: sample_lib_def result_with_parts_def nullish_def text_model_params_def
        image_model_params_def)
  from pre absent partial thrown answered show ?thesis
    by simp
qed

text \<open>
  The claim as stated fails on a payload that is present and lacks the fields:
  with the empty object as payload of generateText the handler throws nothing,
  calls the provider with both texts \<^verbatim>\<open>undefined\<close>, and answers with status
  200 when the provider returns a text.
\<close>

theorem unvalidated_payload_counterexample:
  "field (JObj []) ''systemPrompt'' = JUndefined \<and>
   field (JObj []) ''userQuery'' = JUndefined \<and>
   handler sample_rt sample_lib sample_env (post ''generateText'' (JObj [])) =
     \<lparr>result = Responded
        \<lparr>status = 200,
         headers = [(''Access-Control-Allow-Origin'', ''*''),
                    (''Access-Control-Allow-Methods'', ''POST, OPTIONS''),
                    (''Access-Control-Allow-Headers'', ''Content-Type'')],
         payload_sent = Json (JObj [(''text'', JStr ''hello'')])\<rparr>,
      sdk_calls =
        [Construct sample_init, GetModel text_model_params, GetModel image_model_params,
         GenerateContent text_model_params
           (JObj [(''contents'',
                     JArr [JObj [(''role'', JStr ''user''),
                                 (''parts'', JArr [JObj [(''text'', JUndefined)]])]]),
                  (''systemInstruction'',
                     JObj [(''parts'', JArr [JObj [(''text'', JUndefined)]])])])],
      console = []\<rparr>"
  by (simp add: handler_eval sample_eval)

subsection \<open>What leaves the handler\<close>

text \<open>
  The handler lets a value escape only from the two statements between its
  \<^verbatim>\<open>try\<close> blocks: the constructor of the client (line 46) and the
  destructuring of a missing body (line 56). Every response it sends has one
  of the statuses 200, 400, 405 and 500.
\<close>

theorem unhandled_only_outside_try:
  "(\<forall>e. result (handler rt lib ev req) = Unhandled e \<longrightarrow>
       req_method req = ''POST'' \<and>
       (\<exists>creds. resolve_credentials rt cors_headers ev = Inr creds \<and>
          (new_VertexAI lib (vertex_init creds) = Some e \<or>
           new_VertexAI lib (vertex_init creds) = None \<and>
           (body req = JUndefined \<or> body req = JNull) \<and>
           e = Thrown ''TypeError'' (type_error_text rt (NullishRead (body req) ''step''))))) \<and>
   (\<forall>r. result (handler rt lib ev req) = Responded r \<longrightarrow>
       status r = 200 \<or> status r = 400 \<or> status r = 405 \<or> status r = 500)"
proof (intro conjI allI impI)
  fix e
  assume u: "result (handler rt lib ev req) = Unhandled e"
  then show "req_method req = ''POST''"
    by (auto simp: handler_def Let_def finish_def split: if_splits)
  with u show "\<exists>creds. resolve_credentials rt cors_headers ev = Inr creds \<and>
          (new_VertexAI lib (vertex_init creds) = Some e \<or>
           new_VertexAI lib (vertex_init creds) = None \<and>
           (body req = JUndefined \<or> body req = JNull) \<and>
           e = Thrown ''TypeError'' (type_error_text rt (NullishRead (body req) ''step'')))"
    by (auto simp: handler_def Let_def finish_def get_prop_def nullish_def type_error_def
        split: if_splits sum.splits option.splits prod.splits)
next
  fix r
  assume a: "result (handler rt lib ev req) = Responded r"
  have s: "snd (try_body rt lib cors_headers init step p) = Inr r' \<Longrightarrow>
      status r' = 200 \<or> status r' = 400" for init step p r'
    unfolding try_body_def case_generateText_def case_generateImage_def
      case_describeImage_def
    by (auto dest!: snd_bind_c_Inr_D simp: snd_pure_c respond_json_def split: if_splits)
  have t: "try_body rt lib cors_headers init step p = (cs, Inr r') \<Longrightarrow>
      status r' = 200 \<or> status r' = 400" for init step p r' cs
    using s [of init step p r'] by simp
  from a show "status r = 200 \<or> status r = 400 \<or> status r = 405 \<or> status r = 500"
    by (auto simp: handler_def Let_def finish_def respond_end_def respond_json_def
        catch_api_error_def
        dest!: resolve_credentials_Inl t
        split: if_splits sum.splits option.splits prod.splits)
qed


theorem unhandled_only_outside_try_witness:
  "result (handler sample_rt sample_lib sample_env \<lparr>req_method = ''POST'', body = JNull\<rparr>) =
     Unhandled (Thrown ''TypeError'' ''Cannot read properties of undefined or null: step'') \<and>
   resolve_credentials sample_rt cors_headers sample_env =
     Inr (''my-project'', JStr ''K'', JStr ''E'') \<and>
   new_VertexAI sample_lib (vertex_init (''my-project'', JStr ''K'', JStr ''E'')) = None \<and>
   result (handler sample_rt sample_lib sample_env (post ''bogus'' JNull)) =
     Responded
       \<lparr>status = 400,
        headers = [(''Access-Control-Allow-Origin'', ''*''),
                   (''Access-Control-Allow-Methods'', ''POST, OPTIONS''),
                   (''Access-Control-Allow-Headers'', ''Content-Type'')],
        payload_sent = Json (JObj [(''error'', JStr ''Invalid step provided'')])\<rparr>"
  using unhandled_only_outside_try
    [of sample_rt sample_lib sample_env "\<lparr>req_method = ''POST'', body = JNull\<rparr>"]
    unhandled_only_outside_try
    [of sample_rt sample_lib sample_env "post ''bogus'' JNull"]
  by (simp add: handler_eval sample_eval)

end
